theory Spec2Isabelle
  imports Complex_Main
begin

section \<open>Data model\<close>

text \<open>
  Values that reach the rule engine come from JSON: the fact map (\<open>details\<close>) and the
  comparison value of a pricing factor hold numbers, strings, booleans or \<open>null\<close>.
  A JavaScript number is a finite double, written here as the rational it denotes.
\<close>

datatype jsval = JNum rat | JStr string | JBool bool | JNull

type_synonym details = "(string \<times> jsval) list"

text \<open>\<open>interface PricingFactor\<close> of \<open>premium.service.ts\<close>. The fields \<open>condition\<close>
  and \<open>type\<close> are strings at run time (the rules are a JSON column), so the engine's
  \<open>switch\<close> and \<open>if\<close> chains keep their fall-through case.\<close>

record PricingFactor =
  key :: string
  condition :: string
  fvalue :: jsval
  modifier :: rat
  ftype :: string

text \<open>The JSON column \<open>pricingRules\<close>, as far as the engine's guard inspects it:
  \<open>baseRate\<close> is \<open>None\<close> when the property is missing, \<open>factors\<close> is \<open>None\<close>
  when the property is missing or is not an array. In a product, the column is \<open>None\<close>
  when it holds a falsy value (\<open>null\<close>); a value that is no object has neither
  property.\<close>

record PricingRules =
  baseRate :: "jsval option"
  factors :: "PricingFactor list option"

record InsuranceProduct =
  pid :: string
  ptype :: string
  pname :: string
  isActive :: bool
  requiredInputs :: string
  pricingRules :: "PricingRules option"

record User =
  uid :: string
  whatsappId :: "string option"
  fullName :: "string option"

record Quote =
  qid :: string
  userId :: string
  insuranceProductId :: string
  qtype :: string
  status :: string
  premium :: rat
  qdetails :: details

text \<open>Tool arguments and results of the dialogue model (\<open>agent.service.ts\<close>).\<close>

record call_args =
  insuranceType :: string
  argPremium :: rat
  customerName :: string
  argDetails :: details

record function_call =
  fname :: string
  args :: call_args

datatype tool_result =
    PremiumResult rat
  | ErrorResult string
  | UrlResult "string option"

datatype part =
    TextPart string
  | FunctionCallPart function_call
  | FunctionResponsePart string tool_result

record content =
  role :: string
  parts :: "part list"

record llm_response =
  rtext :: string
  functionCalls :: "function_call list"

record Conversation =
  cid :: string
  cuserId :: string
  history :: "content list"

record db =
  users :: "User list"
  conversations :: "Conversation list"
  quotes :: "Quote list"
  insuranceProducts :: "InsuranceProduct list"

record stripe_event =
  etype :: string
  metadata_quoteId :: "string option"

record certificateData =
  policyId :: string
  certCustomerName :: string
  policyType :: string
  certPremium :: rat
  coverageDetails :: details
  issueDate :: string

text \<open>
  Everything outside the repository that a call depends on. \<open>Inl\<close> is a thrown error.
  \<^item> \<open>prismaDown\<close>: the store is unreachable during the call, so that the first
    storage operation of a function throws; a reachable store performs every operation.
  \<^item> \<open>genId\<close>: the identifier the store gives to the next record of a table, from the
    number of records the table holds.
  \<^item> \<open>stringToNumber\<close>, \<open>numberToString\<close>: the conversions of the runtime
    (\<open>None\<close> is \<open>NaN\<close>); \<open>roundDouble\<close>: the double an exact arithmetic result is
    rounded to; \<open>inheritedProperty\<close>: for the name of a member of \<open>Object.prototype\<close>,
    the string that member converts to; \<open>today\<close>: the formatted date of issue.
  \<^item> \<open>constructEvent\<close>: \<open>stripe.webhooks.constructEvent\<close> under the configured
    secret; \<open>checkoutSessionsCreate\<close>: the URL of a new checkout session.
  \<^item> \<open>pdfCoConvert\<close>: the temporary URL of the rendered certificate (its HTML is a
    function of the certificate data), \<open>None\<close> when the request fails or reports an
    error; \<open>downloadPdf\<close>: whether that file can be fetched; \<open>cloudinaryUpload\<close>: the
    permanent URL, \<open>None\<close> on an upload error.
  \<^item> \<open>whatsappPostDocument\<close>: the error message of a failed document post,
    \<open>None\<close> when it went through.
  \<^item> \<open>chatSendMessage\<close>, \<open>chatSendFunctionResponse\<close>, \<open>chatGetHistory\<close>: the chat
    session of the dialogue model, started on a history and given the user's message.
\<close>

record env =
  prismaDown :: bool
  genId :: "nat \<Rightarrow> string"
  stringToNumber :: "string \<Rightarrow> rat option"
  inheritedProperty :: "string \<Rightarrow> string option"
  numberToString :: "rat \<Rightarrow> string"
  roundDouble :: "rat \<Rightarrow> rat"
  today :: string
  constructEvent :: "string \<Rightarrow> string \<Rightarrow> string + stripe_event"
  checkoutSessionsCreate :: "string \<Rightarrow> rat \<Rightarrow> string + string option"
  pdfCoConvert :: "certificateData \<Rightarrow> string option"
  downloadPdf :: "string \<Rightarrow> bool"
  cloudinaryUpload :: "string \<Rightarrow> string option"
  whatsappPostDocument :: "string \<Rightarrow> string \<Rightarrow> string option"
  chatSendMessage :: "content option list \<Rightarrow> string \<Rightarrow> string + llm_response"
  chatSendFunctionResponse ::
    "content option list \<Rightarrow> string \<Rightarrow> function_call \<Rightarrow> tool_result \<Rightarrow> string + string"
  chatGetHistory ::
    "content option list \<Rightarrow> string \<Rightarrow> llm_response \<Rightarrow> (tool_result \<times> string) option
      \<Rightarrow> content list"

text \<open>The trace of writes to storage and of calls to the outside, in program order.\<close>

datatype effect =
    UserCreate string
  | UserUpdateFullName string string
  | ConversationCreate string
  | ConversationUpdateHistory string "content list"
  | QuoteCreate Quote
  | QuoteUpdateStatus string string
  | SendWhatsAppMessage string string
  | SendDocument string string string string
  | GenerateCertificate string
  | PdfCoRequest string
  | CloudinaryUploadStream string
  | CreateCheckoutSession string rat string
  | ChatSendMessage string
  | ChatSendFunctionResponse string tool_result

section \<open>JavaScript comparison operators\<close>

text \<open>Code-unit order of two strings (\<open>a < b\<close> on strings).\<close>

fun str_lt :: "string \<Rightarrow> string \<Rightarrow> bool" where
  "str_lt [] [] = False"
| "str_lt [] (y # ys) = True"
| "str_lt (x # xs) [] = False"
| "str_lt (x # xs) (y # ys) =
     (if (of_char x :: nat) < of_char y then True
      else if (of_char y :: nat) < of_char x then False
      else str_lt xs ys)"

text \<open>\<open>ToNumber\<close>; \<open>None\<close> is \<open>NaN\<close>.\<close>

fun toNumber :: "env \<Rightarrow> jsval \<Rightarrow> rat option" where
  "toNumber e (JNum r) = Some r"
| "toNumber e (JStr s) = stringToNumber e s"
| "toNumber e (JBool b) = Some (if b then 1 else 0)"
| "toNumber e JNull = Some 0"

text \<open>\<open>a < b\<close>: two strings compare as strings, anything else as numbers, and a
  comparison with \<open>NaN\<close> is false.\<close>

fun js_lt :: "env \<Rightarrow> jsval \<Rightarrow> jsval \<Rightarrow> bool" where
  "js_lt e (JStr a) (JStr b) = str_lt a b"
| "js_lt e a b =
     (case toNumber e a of None \<Rightarrow> False
      | Some x \<Rightarrow> (case toNumber e b of None \<Rightarrow> False | Some y \<Rightarrow> x < y))"

definition js_gt :: "env \<Rightarrow> jsval \<Rightarrow> jsval \<Rightarrow> bool" where
  "js_gt e a b = js_lt e b a"

text \<open>\<open>a == b\<close> (loose equality): \<open>null\<close> equals only itself, two values of one
  type compare as they are, and any other pair compares as numbers.\<close>

fun js_eq :: "env \<Rightarrow> jsval \<Rightarrow> jsval \<Rightarrow> bool" where
  "js_eq e JNull JNull = True"
| "js_eq e JNull b = False"
| "js_eq e a JNull = False"
| "js_eq e (JNum a) (JNum b) = (a = b)"
| "js_eq e (JStr a) (JStr b) = (a = b)"
| "js_eq e (JBool a) (JBool b) = (a = b)"
| "js_eq e a b =
     (case toNumber e a of None \<Rightarrow> False
      | Some x \<Rightarrow> (case toNumber e b of None \<Rightarrow> False | Some y \<Rightarrow> x = y))"

section \<open>Rule engine (\<open>premium.service.ts\<close>)\<close>

text \<open>\<open>Math.round\<close>: the nearest integer, a tie going up.\<close>

definition Math_round :: "rat \<Rightarrow> rat" where
  "Math_round x = of_int \<lfloor>x + 1 / 2\<rfloor>"

text \<open>The \<open>switch (factor.condition)\<close>; \<open>conditionMet\<close> stays false on any other tag.\<close>

definition conditionMet :: "env \<Rightarrow> string \<Rightarrow> jsval \<Rightarrow> jsval \<Rightarrow> bool" where
  "conditionMet e c userValue v =
     (if c = ''lt'' then js_lt e userValue v
      else if c = ''gt'' then js_gt e userValue v
      else if c = ''eq'' then js_eq e userValue v
      else False)"

text \<open>\<open>details[factor.key]\<close>; \<open>None\<close> is \<open>undefined\<close>. The read finds a property of
  the fact map itself or else a member that every object inherits from
  \<open>Object.prototype\<close> (\<open>constructor\<close>, \<open>toString\<close>, ...); in a comparison such a member
  behaves as the string it converts to, which the runtime supplies.\<close>

definition lookupFact :: "env \<Rightarrow> details \<Rightarrow> string \<Rightarrow> jsval option" where
  "lookupFact e ds k =
     (case map_of ds k of
        Some v \<Rightarrow> Some v
      | None \<Rightarrow> map_option JStr (inheritedProperty e k))"

text \<open>One iteration of \<open>for (const factor of rules.factors)\<close> on the running total.\<close>

definition applyFactor :: "env \<Rightarrow> details \<Rightarrow> rat \<Rightarrow> PricingFactor \<Rightarrow> rat" where
  "applyFactor e ds finalPremium factor =
     (case lookupFact e ds (key factor) of
        None \<Rightarrow> finalPremium
      | Some userValue \<Rightarrow>
          if conditionMet e (condition factor) userValue (fvalue factor) then
            (if ftype factor = ''multiply'' then roundDouble e (finalPremium * modifier factor)
             else if ftype factor = ''add'' then roundDouble e (finalPremium + modifier factor)
             else finalPremium)
          else finalPremium)"

primrec applyFactors :: "env \<Rightarrow> details \<Rightarrow> rat \<Rightarrow> PricingFactor list \<Rightarrow> rat" where
  "applyFactors e ds finalPremium [] = finalPremium"
| "applyFactors e ds finalPremium (factor # rest) =
     applyFactors e ds (applyFactor e ds finalPremium factor) rest"

text \<open>\<open>prisma.insuranceProduct.findUnique({ where: { type } })\<close>.\<close>

definition findProduct :: "db \<Rightarrow> string \<Rightarrow> InsuranceProduct option" where
  "findProduct d t = find (\<lambda>p. ptype p = t) (insuranceProducts d)"

text \<open>The body of the \<open>try\<close> block of \<open>calculatePremium\<close>; \<open>Inl\<close> is an exception
  on its way to the \<open>catch\<close>.\<close>

definition calculatePremium_try :: "env \<Rightarrow> db \<Rightarrow> string \<Rightarrow> details \<Rightarrow> string + tool_result" where
  "calculatePremium_try e d insType ds =
     (if prismaDown e then Inl ''PrismaClientInitializationError''
      else case findProduct d insType of
        None \<Rightarrow> Inr (ErrorResult ''Invalid insurance type specified.'')
      | Some product \<Rightarrow>
          if \<not> isActive product then Inr (ErrorResult ''Invalid insurance type specified.'')
          else (case pricingRules product of
            None \<Rightarrow>
              Inr (ErrorResult ''Pricing rules are not configured correctly for this product.'')
          | Some rules \<Rightarrow>
              (case baseRate rules of
                 Some (JNum base) \<Rightarrow>
                   (case factors rules of
                      None \<Rightarrow> Inr (ErrorResult
                        ''Pricing rules are not configured correctly for this product.'')
                    | Some fs \<Rightarrow>
                        Inr (PremiumResult (Math_round (applyFactors e ds base fs))))
               | _ \<Rightarrow> Inr (ErrorResult
                        ''Pricing rules are not configured correctly for this product.''))))"

definition calculatePremium :: "env \<Rightarrow> db \<Rightarrow> string \<Rightarrow> details \<Rightarrow> tool_result" where
  "calculatePremium e d insType ds =
     (case calculatePremium_try e d insType ds of
        Inl err \<Rightarrow> ErrorResult ''An unexpected error occurred during premium calculation.''
      | Inr r \<Rightarrow> r)"

section \<open>String helpers\<close>

text \<open>\<open>toUpperCase\<close>, \<open>toLowerCase\<close> (on the ASCII letters) and \<open>String.prototype.includes\<close>.\<close>

definition toUpperChar :: "char \<Rightarrow> char" where
  "toUpperChar c =
     (let n = (of_char c :: nat) in if 97 \<le> n \<and> n \<le> 122 then char_of (n - 32) else c)"

definition toLowerChar :: "char \<Rightarrow> char" where
  "toLowerChar c =
     (let n = (of_char c :: nat) in if 65 \<le> n \<and> n \<le> 90 then char_of (n + 32) else c)"

definition toUpperCase :: "string \<Rightarrow> string" where
  "toUpperCase s = map toUpperChar s"

definition toLowerCase :: "string \<Rightarrow> string" where
  "toLowerCase s = map toLowerChar s"

fun str_includes :: "string \<Rightarrow> string \<Rightarrow> bool" where
  "str_includes [] sub = (sub = [])"
| "str_includes (c # cs) sub = (take (length sub) (c # cs) = sub \<or> str_includes cs sub)"

text \<open>\<open>a || b\<close> on an optional string: \<open>null\<close> and the empty string are falsy.\<close>

definition orElse :: "string option \<Rightarrow> string \<Rightarrow> string" where
  "orElse a b = (case a of None \<Rightarrow> b | Some s \<Rightarrow> if s = [] then b else s)"

section \<open>Storage operations\<close>

definition findQuote :: "db \<Rightarrow> string \<Rightarrow> Quote option" where
  "findQuote d i = find (\<lambda>q. qid q = i) (quotes d)"

definition findUserById :: "db \<Rightarrow> string \<Rightarrow> User option" where
  "findUserById d i = find (\<lambda>u. uid u = i) (users d)"

definition findUserByWhatsappId :: "db \<Rightarrow> string \<Rightarrow> User option" where
  "findUserByWhatsappId d w = find (\<lambda>u. whatsappId u = Some w) (users d)"

definition findConversation :: "db \<Rightarrow> string \<Rightarrow> Conversation option" where
  "findConversation d u = find (\<lambda>c. cuserId c = u) (conversations d)"

definition updateQuoteStatus :: "db \<Rightarrow> string \<Rightarrow> string \<Rightarrow> db" where
  "updateQuoteStatus d i s =
     d\<lparr>quotes := map (\<lambda>q. if qid q = i then q\<lparr>status := s\<rparr> else q) (quotes d)\<rparr>"

definition updateUserFullName :: "db \<Rightarrow> string \<Rightarrow> string \<Rightarrow> db" where
  "updateUserFullName d i n =
     d\<lparr>users := map (\<lambda>u. if uid u = i then u\<lparr>fullName := Some n\<rparr> else u) (users d)\<rparr>"

definition updateConversationHistory :: "db \<Rightarrow> string \<Rightarrow> content list \<Rightarrow> db" where
  "updateConversationHistory d i h =
     d\<lparr>conversations :=
         map (\<lambda>c. if cid c = i then c\<lparr>history := h\<rparr> else c) (conversations d)\<rparr>"

section \<open>Messaging (\<open>whatsapp.service.ts\<close>)\<close>

text \<open>\<open>sendMessage\<close> catches its own failure, so a call is one trace entry whatever the
  transport answers. \<open>sendDocument\<close> rethrows.\<close>

definition sendDocument ::
  "env \<Rightarrow> string \<Rightarrow> string \<Rightarrow> string \<Rightarrow> string \<Rightarrow> (string + unit) \<times> effect list" where
  "sendDocument e to documentUrl caption filename =
     (case whatsappPostDocument e to documentUrl of
        Some errorMessage \<Rightarrow>
          (Inl (''Failed to send WhatsApp document: '' @ errorMessage),
           [SendDocument to documentUrl caption filename])
      | None \<Rightarrow> (Inr (), [SendDocument to documentUrl caption filename]))"

section \<open>Certificate generation (\<open>document.service.ts\<close>)\<close>

definition generateAndUploadCertificate ::
  "env \<Rightarrow> db \<Rightarrow> string \<Rightarrow> (string + string) \<times> effect list" where
  "generateAndUploadCertificate e d quoteId =
     (if prismaDown e then (Inl ''PrismaClientInitializationError'', [])
      else case findQuote d quoteId of
        None \<Rightarrow>
          (Inl (''Quote or user not found for certificate generation (Quote ID: '' @ quoteId
                @ '').''), [])
      | Some quote \<Rightarrow>
          (case findUserById d (userId quote) of
             None \<Rightarrow>
               (Inl (''Quote or user not found for certificate generation (Quote ID: ''
                     @ quoteId @ '').''), [])
           | Some user \<Rightarrow>
               let data = \<lparr>policyId = ''POL-'' @ take 12 (toUpperCase (qid quote)),
                           certCustomerName = orElse (fullName user) ''Valued Customer'',
                           policyType = qtype quote,
                           certPremium = premium quote,
                           coverageDetails = qdetails quote,
                           issueDate = today e\<rparr>
               in (case pdfCoConvert e data of
                     None \<Rightarrow>
                       (Inl ''Failed to generate PDF via external API.'',
                        [PdfCoRequest (policyId data)])
                   | Some pdfUrlFromApi \<Rightarrow>
                       if \<not> downloadPdf e pdfUrlFromApi
                       then (Inr pdfUrlFromApi, [PdfCoRequest (policyId data)])
                       else (case cloudinaryUpload e (policyId data) of
                               None \<Rightarrow>
                                 (Inl ''Failed to upload PDF to permanent storage.'',
                                  [PdfCoRequest (policyId data),
                                   CloudinaryUploadStream (policyId data)])
                             | Some secure_url \<Rightarrow>
                                 (Inr secure_url,
                                  [PdfCoRequest (policyId data),
                                   CloudinaryUploadStream (policyId data)])))))"

section \<open>Conversation state (\<open>agent.service.ts\<close>)\<close>

definition findOrCreateUserAndConversation ::
  "env \<Rightarrow> db \<Rightarrow> string \<Rightarrow> User \<times> Conversation \<times> db \<times> effect list" where
  "findOrCreateUserAndConversation e d w =
     (let (user, d1, t1) =
            (case findUserByWhatsappId d w of
               Some u \<Rightarrow> (u, d, [])
             | None \<Rightarrow>
                 (let u = \<lparr>uid = genId e (length (users d)), whatsappId = Some w,
                           fullName = None\<rparr>
                  in (u, d\<lparr>users := users d @ [u]\<rparr>, [UserCreate w])));
          (conversation, d2, t2) =
            (case findConversation d1 (uid user) of
               Some c \<Rightarrow> (c, d1, [])
             | None \<Rightarrow>
                 (let c = \<lparr>cid = genId e (length (conversations d1)), cuserId = uid user,
                           history = []\<rparr>
                  in (c, d1\<lparr>conversations := conversations d1 @ [c]\<rparr>,
                      [ConversationCreate (uid user)])))
      in (user, conversation, d2, t1 @ t2))"

text \<open>\<open>addSystemMessageToConversation\<close>: its \<open>catch\<close> logs and returns.\<close>

definition addSystemMessageToConversation ::
  "env \<Rightarrow> db \<Rightarrow> string \<Rightarrow> string \<Rightarrow> db \<times> effect list" where
  "addSystemMessageToConversation e d w systemText =
     (if prismaDown e then (d, [])
      else let (user, conversation, d1, t1) = findOrCreateUserAndConversation e d w;
               systemMessage = \<lparr>role = ''model'',
                                parts = [TextPart (''(System Note: '' @ systemText @ '')'')]\<rparr>;
               updatedHistory = history conversation @ [systemMessage]
           in (updateConversationHistory d1 (cid conversation) updatedHistory,
               t1 @ [ConversationUpdateHistory (cid conversation) updatedHistory]))"

section \<open>Payment confirmation (\<open>payment.service.ts\<close>)\<close>

definition createStripeCheckoutSession ::
  "env \<Rightarrow> string \<Rightarrow> rat \<Rightarrow> string \<Rightarrow> (string + tool_result) \<times> effect list" where
  "createStripeCheckoutSession e quoteId prem custName =
     (case checkoutSessionsCreate e quoteId (Math_round prem) of
        Inl err \<Rightarrow>
          (Inl ''Could not create payment session.'',
           [CreateCheckoutSession quoteId (Math_round prem) custName])
      | Inr url \<Rightarrow>
          (Inr (UrlResult url), [CreateCheckoutSession quoteId (Math_round prem) custName]))"

definition successMessage :: "env \<Rightarrow> Quote \<Rightarrow> User \<Rightarrow> string" where
  "successMessage e quote user =
     ''Thank you, '' @ orElse (fullName user) ''there'' @ ''! Your payment of ''
       @ numberToString e (premium quote) @ '' RWF for quote #'' @ take 8 (qid quote)
       @ '' was successful. We are now preparing your insurance certificate.''"

definition degradedMessage :: string where
  "degradedMessage =
     ''We've confirmed your payment, but there was an issue generating your certificate. Our team has been notified and will send it to you manually shortly.''"

text \<open>The \<open>systemMessage\<close> recorded in the conversation after a payment.\<close>

definition paymentNote :: "Quote \<Rightarrow> string" where
  "paymentNote quote =
     ''Payment for quote '' @ qid quote
       @ '' was successfully processed. Certificate generation initiated.''"

text \<open>Step 2 of the handler: the inner \<open>try\<close> around certificate generation and
  delivery, with its \<open>catch\<close>.\<close>

definition fulfillmentStep :: "env \<Rightarrow> db \<Rightarrow> string \<Rightarrow> Quote \<Rightarrow> effect list" where
  "fulfillmentStep e d userWhatsappId quote =
     (case generateAndUploadCertificate e d (qid quote) of
        (Inl certError, t1) \<Rightarrow>
          GenerateCertificate (qid quote) # t1
            @ [SendWhatsAppMessage userWhatsappId degradedMessage]
      | (Inr certificateUrl, t1) \<Rightarrow>
          (case sendDocument e userWhatsappId certificateUrl
                  ''Here is your official Insurance Certificate.''
                  (''Insurance-Certificate-'' @ take 8 (qid quote) @ ''.pdf'') of
             (Inl certError, t2) \<Rightarrow>
               GenerateCertificate (qid quote) # t1 @ t2
                 @ [SendWhatsAppMessage userWhatsappId degradedMessage]
           | (Inr u, t2) \<Rightarrow> GenerateCertificate (qid quote) # t1 @ t2))"

text \<open>The \<open>try\<close> block for a \<open>checkout.session.completed\<close> event with a quote
  identifier. A storage failure is rethrown as a processing error.\<close>

definition processCheckoutCompleted ::
  "env \<Rightarrow> db \<Rightarrow> string \<Rightarrow> (string + unit) \<times> db \<times> effect list" where
  "processCheckoutCompleted e d quoteId =
     (if prismaDown e then (Inl (''Processing error for quote '' @ quoteId @ ''.''), d, [])
      else case findQuote d quoteId of
        None \<Rightarrow> (Inr (), d, [])
      | Some quote \<Rightarrow>
          (case findUserById d (userId quote) of
             None \<Rightarrow> (Inr (), d, [])
           | Some user \<Rightarrow>
               if status quote = ''paid'' then (Inr (), d, [])
               else
                 (let d1 = updateQuoteStatus d quoteId ''paid'';
                      t1 = [QuoteUpdateStatus quoteId ''paid'']
                  in case whatsappId user of
                       None \<Rightarrow> (Inr (), d1, t1)
                     | Some userWhatsappId \<Rightarrow>
                         if userWhatsappId = [] then (Inr (), d1, t1)
                         else
                           (let t2 = [SendWhatsAppMessage userWhatsappId
                                        (successMessage e quote user)];
                                (d2, t3) = addSystemMessageToConversation e d1
                                             userWhatsappId (paymentNote quote);
                                t4 = fulfillmentStep e d2 userWhatsappId quote
                            in (Inr (), d2, t1 @ t2 @ t3 @ t4)))))"

definition handleStripeWebhook ::
  "env \<Rightarrow> db \<Rightarrow> string \<Rightarrow> string \<Rightarrow> (string + unit) \<times> db \<times> effect list" where
  "handleStripeWebhook e d rawBody sig =
     (case constructEvent e rawBody sig of
        Inl err \<Rightarrow> (Inl ''Webhook signature verification failed.'', d, [])
      | Inr event \<Rightarrow>
          if etype event = ''checkout.session.completed'' then
            (case metadata_quoteId event of
               None \<Rightarrow> (Inr (), d, [])
             | Some quoteId \<Rightarrow>
                 if quoteId = [] then (Inr (), d, [])
                 else processCheckoutCompleted e d quoteId)
          else (Inr (), d, []))"

text \<open>\<open>stripeWebhookHandler\<close> of \<open>stripe.controller.ts\<close>: the HTTP status and body
  sent back to the gateway. The request body is a string or a \<open>Buffer\<close>; the guard
  \<open>!sig || !body\<close> is true of a missing header or body and of the empty string, and false
  of any \<open>Buffer\<close>, also an empty one.\<close>

datatype request_body = StringBody string | BufferBody string

fun payload :: "request_body \<Rightarrow> string" where
  "payload (StringBody s) = s"
| "payload (BufferBody s) = s"

datatype http_body = SendText string | JsonReceivedTrue

definition stripeWebhookHandler ::
  "env \<Rightarrow> db \<Rightarrow> string option \<Rightarrow> request_body option
     \<Rightarrow> (nat \<times> http_body) \<times> db \<times> effect list" where
  "stripeWebhookHandler e d sigHeader body =
     (case sigHeader of
        None \<Rightarrow>
          ((400, SendText ''Webhook Error: Missing stripe-signature header or request body.''), d, [])
      | Some sig \<Rightarrow>
          if sig = [] then
            ((400, SendText ''Webhook Error: Missing stripe-signature header or request body.''), d, [])
          else (case body of
            None \<Rightarrow>
              ((400, SendText ''Webhook Error: Missing stripe-signature header or request body.''),
               d, [])
          | Some b \<Rightarrow>
              if b = StringBody [] then
                ((400, SendText ''Webhook Error: Missing stripe-signature header or request body.''),
                 d, [])
              else
                (case handleStripeWebhook e d (payload b) sig of
                   (Inl message, d', t) \<Rightarrow> ((400, SendText (''Webhook Error: '' @ message)), d', t)
                 | (Inr u, d', t) \<Rightarrow> ((200, JsonReceivedTrue), d', t))))"

section \<open>Conversation orchestrator (\<open>agent.service.ts\<close>)\<close>

definition injectDynamicInstructions :: "db \<Rightarrow> content list \<Rightarrow> string \<Rightarrow> content option list" where
  "injectDynamicInstructions d hist userMessage =
     (let lowerCaseMessage = toLowerCase userMessage in
      if length hist \<le> 2
         \<and> (str_includes lowerCaseMessage ''motor'' \<or> str_includes lowerCaseMessage ''car'')
      then
        (case findProduct d ''motor'' of
           Some motorProduct \<Rightarrow>
             (let instruction = \<lparr>role = ''model'', parts = [TextPart
                    (''(System Instruction: The user wants motor insurance. Your goal is to collect the following pieces of information, asking one question at a time: ''
                     @ requiredInputs motorProduct
                     @ ''. Once you have all required information, call the 'calculate_premium' tool.)'')]\<rparr>
              in (case hist of [] \<Rightarrow> None | h # rest \<Rightarrow> Some h)
                   # Some instruction # map Some (drop 1 hist))
         | None \<Rightarrow> map Some hist)
      else map Some hist)"

definition trustAndSafetyPrompt :: string where
  "trustAndSafetyPrompt =
     ''I can only assist with inquiries related to insurance products offered by Ishimwe Insurance, including motor, travel, and health policies. Please let me know how I can help you with one of those today!''"

definition applyBusinessLogic :: "string \<Rightarrow> string" where
  "applyBusinessLogic responseText =
     (let finalMessage =
            (if str_includes (toLowerCase responseText) ''premium is''
             then responseText @ [CHR 0x0A, CHR 0x0A]
                    @ ''*Note: This quote is based on the details you provided and our standard underwriting rules.*''
             else responseText)
      in if str_includes (toLowerCase responseText) ''i cannot help''
         then trustAndSafetyPrompt else finalMessage)"

text \<open>The tool dispatch of \<open>processMessage\<close> (the \<open>if\<close> chain on \<open>call.name\<close>).
  \<open>Inl\<close> is an exception leaving the chain; the writes made before it stay.\<close>

definition dispatchToolCall ::
  "env \<Rightarrow> db \<Rightarrow> User \<Rightarrow> function_call \<Rightarrow> (string + tool_result) \<times> db \<times> effect list" where
  "dispatchToolCall e d user call =
     (if fname call = ''calculate_premium'' then
        (Inr (calculatePremium e d (insuranceType (args call)) (argDetails (args call))), d, [])
      else if fname call = ''generate_payment_link'' then
        (let a = args call;
             d1 = updateUserFullName d (uid user) (customerName a);
             t1 = [UserUpdateFullName (uid user) (customerName a)]
         in case findProduct d1 (insuranceType a) of
              None \<Rightarrow> (Inl (''Product type '' @ insuranceType a @ '' not found.''), d1, t1)
            | Some product \<Rightarrow>
                (let newQuote = \<lparr>qid = genId e (length (quotes d1)), userId = uid user,
                                  insuranceProductId = pid product,
                                  qtype = insuranceType a, status = ''quoted'',
                                  premium = argPremium a, qdetails = argDetails a\<rparr>;
                     d2 = d1\<lparr>quotes := quotes d1 @ [newQuote]\<rparr>;
                     t2 = [QuoteCreate newQuote]
                 in case createStripeCheckoutSession e (qid newQuote) (premium newQuote)
                           (customerName a) of
                      (Inl err, t3) \<Rightarrow> (Inl err, d2, t1 @ t2 @ t3)
                    | (Inr toolResult, t3) \<Rightarrow> (Inr toolResult, d2, t1 @ t2 @ t3)))
      else (Inr (ErrorResult ''Unknown function''), d, []))"

text \<open>The end of a turn: persist the history, post-process and send the reply.\<close>

definition finishTurn ::
  "env \<Rightarrow> db \<Rightarrow> Conversation \<Rightarrow> string \<Rightarrow> content option list \<Rightarrow> string \<Rightarrow> llm_response
     \<Rightarrow> (tool_result \<times> string) option \<Rightarrow> string \<Rightarrow> effect list
     \<Rightarrow> (string + unit) \<times> db \<times> effect list" where
  "finishTurn e d conversation w dynamicHistory userMessage response toolTurn aiResponseText t =
     (let updatedHistory = chatGetHistory e dynamicHistory userMessage response toolTurn;
          d' = updateConversationHistory d (cid conversation) updatedHistory;
          finalMessage = applyBusinessLogic aiResponseText
      in (Inr (), d',
          t @ [ConversationUpdateHistory (cid conversation) updatedHistory,
               SendWhatsAppMessage w finalMessage]))"

text \<open>The \<open>try\<close> block of \<open>processMessage\<close>.\<close>

definition processMessage_try ::
  "env \<Rightarrow> db \<Rightarrow> string \<Rightarrow> string \<Rightarrow> (string + unit) \<times> db \<times> effect list" where
  "processMessage_try e d w userMessage =
     (if prismaDown e then (Inl ''PrismaClientInitializationError'', d, [])
      else
        (let (user, conversation, d1, t1) = findOrCreateUserAndConversation e d w;
             dynamicHistory = injectDynamicInstructions d1 (history conversation) userMessage;
             t2 = t1 @ [ChatSendMessage userMessage]
         in case chatSendMessage e dynamicHistory userMessage of
              Inl err \<Rightarrow> (Inl err, d1, t2)
            | Inr response \<Rightarrow>
                (case functionCalls response of
                   [] \<Rightarrow>
                     finishTurn e d1 conversation w dynamicHistory userMessage response None
                       (rtext response) t2
                 | call # others \<Rightarrow>
                     (case dispatchToolCall e d1 user call of
                        (Inl err, d2, t3) \<Rightarrow> (Inl err, d2, t2 @ t3)
                      | (Inr toolResult, d2, t3) \<Rightarrow>
                          (let t4 = t2 @ t3 @ [ChatSendFunctionResponse (fname call) toolResult]
                           in case chatSendFunctionResponse e dynamicHistory userMessage call
                                     toolResult of
                                Inl err \<Rightarrow> (Inl err, d2, t4)
                              | Inr aiResponseText \<Rightarrow>
                                  finishTurn e d2 conversation w dynamicHistory userMessage
                                    response (Some (toolResult, aiResponseText))
                                    aiResponseText t4)))))"

definition sorryMessage :: string where
  "sorryMessage =
     ''I'm sorry, I encountered an unexpected error. Could we please try that again?''"

definition processMessage :: "env \<Rightarrow> db \<Rightarrow> string \<Rightarrow> string \<Rightarrow> db \<times> effect list" where
  "processMessage e d w userMessage =
     (case processMessage_try e d w userMessage of
        (Inl err, d', t) \<Rightarrow> (d', t @ [SendWhatsAppMessage w sorryMessage])
      | (Inr u, d', t) \<Rightarrow> (d', t))"

section \<open>Test fixtures\<close>

text \<open>A catalogue holding one active motor product with the given rule set, and the rule
  set of scenario A as the runtime reads it (\<open>1.4\<close> is the double nearest to 14/10).\<close>

definition motorProductWith :: "PricingRules \<Rightarrow> InsuranceProduct" where
  "motorProductWith rules =
     \<lparr>pid = ''prod-motor'', ptype = ''motor'', pname = ''Comprehensive Motor Insurance'',
      isActive = True, requiredInputs = ''[]'', pricingRules = Some rules\<rparr>"

definition catalog :: "PricingRules \<Rightarrow> db" where
  "catalog rules =
     \<lparr>users = [], conversations = [], quotes = [],
      insuranceProducts = [motorProductWith rules]\<rparr>"

definition motorRules :: "env \<Rightarrow> PricingRules" where
  "motorRules e =
     \<lparr>baseRate = Some (JNum 60000),
      factors = Some
        [\<lparr>key = ''driverAge'', condition = ''lt'', fvalue = JNum 25,
          modifier = roundDouble e (14 / 10), ftype = ''multiply''\<rparr>,
         \<lparr>key = ''carYear'', condition = ''lt'', fvalue = JNum 2010,
          modifier = 10000, ftype = ''add''\<rparr>]\<rparr>"



definition constructorFactor :: PricingFactor where
  "constructorFactor =
     \<lparr>key = ''constructor'', condition = ''lt'', fvalue = JStr ''zzz'', modifier = 10000,
      ftype = ''add''\<rparr>"

definition test_event :: "string \<Rightarrow> string \<Rightarrow> string + stripe_event" where
  "test_event rawBody sig =
     (if sig = ''good'' then
        Inr \<lparr>etype = ''checkout.session.completed'', metadata_quoteId = Some rawBody\<rparr>
      else Inl ''No signatures found matching the expected signature for payload.'')"

definition payment_link_call :: "string \<Rightarrow> function_call" where
  "payment_link_call t =
     \<lparr>fname = ''generate_payment_link'',
      args = \<lparr>insuranceType = t, argPremium = 94000, customerName = ''Alice Uwase'',
              argDetails = [(''driverAge'', JNum 22), (''carYear'', JNum 2008)]\<rparr>\<rparr>"

definition test_env :: env where
  "test_env =
     \<lparr>prismaDown = False,
      genId = (\<lambda>n. ''id-'' @ replicate n (CHR ''x'')),
      stringToNumber = (\<lambda>s. None),
      inheritedProperty =
        (\<lambda>k. if k = ''constructor'' then Some ''function Object() { [native code] }''
             else if k = ''toString'' then Some ''function toString() { [native code] }''
             else if k = ''valueOf'' then Some ''function valueOf() { [native code] }''
             else if k = ''hasOwnProperty''
               then Some ''function hasOwnProperty() { [native code] }''
             else if k = ''__proto__'' then Some ''[object Object]''
             else None),
      numberToString = (\<lambda>r. ''94000''),
      roundDouble = (\<lambda>x. x),
      today = ''02 November 2026'',
      constructEvent = test_event,
      checkoutSessionsCreate = (\<lambda>q a. Inr (Some ''https://checkout.test/session'')),
      pdfCoConvert = (\<lambda>c. Some ''https://pdf.test/tmp.pdf''),
      downloadPdf = (\<lambda>u. True),
      cloudinaryUpload = (\<lambda>p. Some ''https://cdn.test/certificate.pdf''),
      whatsappPostDocument = (\<lambda>to u. None),
      chatSendMessage =
        (\<lambda>h m. Inr \<lparr>rtext = [], functionCalls = [payment_link_call m]\<rparr>),
      chatSendFunctionResponse = (\<lambda>h m c r. Inr ''Here is your payment link.''),
      chatGetHistory = (\<lambda>h m r t. [])\<rparr>"

definition alice :: User where
  "alice = \<lparr>uid = ''user-1'', whatsappId = Some ''250788000001'', fullName = Some ''Alice''\<rparr>"

definition quote1 :: Quote where
  "quote1 =
     \<lparr>qid = ''quote-0001'', userId = ''user-1'', insuranceProductId = ''prod-motor'',
      qtype = ''motor'', status = ''quoted'', premium = 94000,
      qdetails = [(''driverAge'', JNum 22), (''carYear'', JNum 2008)]\<rparr>"

definition test_db :: db where
  "test_db =
     \<lparr>users = [alice], conversations = [], quotes = [quote1],
      insuranceProducts = [motorProductWith (motorRules test_env)]\<rparr>"

definition draft_db :: db where
  "draft_db = test_db\<lparr>quotes := [quote1\<lparr>status := ''draft''\<rparr>]\<rparr>"

definition paid_db :: db where
  "paid_db = test_db\<lparr>quotes := [quote1\<lparr>status := ''paid''\<rparr>]\<rparr>"

definition bob :: User where
  "bob = \<lparr>uid = ''user-2'', whatsappId = None, fullName = Some ''Bob''\<rparr>"

definition quote2 :: Quote where
  "quote2 =
     \<lparr>qid = ''quote-0002'', userId = ''user-2'', insuranceProductId = ''prod-motor'',
      qtype = ''motor'', status = ''quoted'', premium = 60000,
      qdetails = [(''driverAge'', JNum 30), (''carYear'', JNum 2020)]\<rparr>"

definition bob_db :: db where
  "bob_db = test_db\<lparr>users := [alice, bob], quotes := [quote1, quote2]\<rparr>"

definition pdf_outage_env :: env where
  "pdf_outage_env = test_env\<lparr>pdfCoConvert := (\<lambda>c. None)\<rparr>"

definition test_conversation :: Conversation where
  "test_conversation = \<lparr>cid = ''id-'', cuserId = ''user-1'', history = []\<rparr>"

section \<open>Properties of the rule engine\<close>

lemma Math_round_int: "Math_round (of_int n) = of_int n"
proof -
  have "\<lfloor>(of_int n :: rat) + 1 / 2\<rfloor> = n" by linarith
  then show ?thesis by (simp add: Math_round_def)
qed

lemma round_close:
  assumes fl: "\<forall>x. \<bar>roundDouble e x - x\<bar> \<le> \<bar>x\<bar> / 2 ^ 53" and b: "\<bar>x\<bar> \<le> 100000"
  shows "\<bar>roundDouble e x - x\<bar> \<le> 1 / 80000000000"
proof -
  have "\<bar>roundDouble e x - x\<bar> \<le> \<bar>x\<bar> / 2 ^ 53" using fl by blast
  also have "\<dots> \<le> 100000 / 2 ^ 53" using b by (simp add: divide_right_mono)
  also have "\<dots> \<le> 1 / 80000000000" by simp
  finally show ?thesis .
qed

lemma scenario_A_total:
  assumes fl: "\<forall>x. \<bar>roundDouble e x - x\<bar> \<le> \<bar>x\<bar> / 2 ^ 53"
  shows "Math_round (roundDouble e (roundDouble e (60000 * roundDouble e (14 / 10)) + 10000)) = 94000"
proof -
  define m where "m = roundDouble e (14 / 10)"
  define p1 where "p1 = roundDouble e (60000 * m)"
  define p2 where "p2 = roundDouble e (p1 + 10000)"
  have m: "\<bar>m - 14 / 10\<bar> \<le> 1 / 80000000000"
    unfolding m_def by (rule round_close [OF fl]) simp
  have "\<bar>60000 * m\<bar> \<le> 100000" using m by linarith
  then have p1: "\<bar>p1 - 60000 * m\<bar> \<le> 1 / 80000000000"
    unfolding p1_def by (rule round_close [OF fl])
  have "\<bar>p1 + 10000\<bar> \<le> 100000" using m p1 by linarith
  then have p2: "\<bar>p2 - (p1 + 10000)\<bar> \<le> 1 / 80000000000"
    unfolding p2_def by (rule round_close [OF fl])
  have "93999 + 1 / 2 \<le> p2" and "p2 < 94000 + 1 / 2"
    using m p1 p2 by linarith+
  then have "\<lfloor>p2 + 1 / 2\<rfloor> = 94000" by linarith
  then show ?thesis
    by (simp add: Math_round_def p2_def p1_def m_def)
qed

lemma calculatePremium_valid:
  assumes "\<not> prismaDown e" "findProduct d t = Some p" "isActive p"
    "pricingRules p = Some r" "baseRate r = Some (JNum b)" "factors r = Some fs"
  shows "calculatePremium e d t ds = PremiumResult (Math_round (applyFactors e ds b fs))"
  using assms by (simp add: calculatePremium_def calculatePremium_try_def)

text \<open>
  Claim C4. For the rule set with base amount 60000, a first factor
  (driverAge lt 25, multiply by 1.4) and a second factor (carYear lt 2010, add 10000), the
  fact map (driverAge 22, carYear 2008) is priced at 94000, which is
  round(60000 * 1.4 + 10000): the factors apply in declaration order to the running total
  and the result is rounded half-up. The arithmetic is that of doubles: the statement
  holds for every rounding of results with relative error at most 2^-53, \<open>1.4\<close> being
  the rounded 14/10.
\<close>

theorem scenario_A_premium:
  assumes fl: "\<forall>x. \<bar>roundDouble e x - x\<bar> \<le> \<bar>x\<bar> / 2 ^ 53"
    and up: "\<not> prismaDown e"
    and prod: "findProduct d ''motor'' = Some product" "isActive product"
      "pricingRules product = Some (motorRules e)"
  shows "calculatePremium e d ''motor'' [(''driverAge'', JNum 22), (''carYear'', JNum 2008)]
           = PremiumResult 94000
         \<and> Math_round (60000 * (14 / 10) + 10000) = 94000"
proof -
  have "calculatePremium e d ''motor'' [(''driverAge'', JNum 22), (''carYear'', JNum 2008)]
          = PremiumResult (Math_round
              (roundDouble e (roundDouble e (60000 * roundDouble e (14 / 10)) + 10000)))"
    using up prod
    by (simp add: calculatePremium_def calculatePremium_try_def motorRules_def
        applyFactor_def lookupFact_def conditionMet_def)
  moreover have "Math_round (60000 * (14 / 10) + 10000) = 94000"
    using Math_round_int [of 94000] by simp
  ultimately show ?thesis using scenario_A_total [OF fl] by simp
qed

lemma findProduct_catalog: "findProduct (catalog r) ''motor'' = Some (motorProductWith r)"
  by (simp add: findProduct_def catalog_def motorProductWith_def)

theorem scenario_A_premium_witness:
  "calculatePremium test_env (catalog (motorRules test_env)) ''motor''
     [(''driverAge'', JNum 22), (''carYear'', JNum 2008)] = PremiumResult 94000"
proof -
  have fl: "\<forall>x. \<bar>roundDouble test_env x - x\<bar> \<le> \<bar>x\<bar> / 2 ^ 53"
    by (simp add: test_env_def)
  have up: "\<not> prismaDown test_env" by (simp add: test_env_def)
  show ?thesis
    using scenario_A_premium [OF fl up findProduct_catalog, of "motorRules test_env"]
    by (simp add: motorProductWith_def)
qed

text \<open>
  Claim C5. When the product is unknown or inactive, or the rule set is structurally
  invalid (no rule set, base amount missing or not a number, factors not an array), the
  engine returns a tagged error result: no exception leaves it and no premium is returned.
\<close>

theorem invalid_product_or_rules_error:
  assumes "findProduct d t = None
     \<or> (\<exists>p. findProduct d t = Some p
          \<and> (\<not> isActive p \<or> pricingRules p = None
              \<or> (\<exists>r. pricingRules p = Some r
                    \<and> ((\<nexists>b. baseRate r = Some (JNum b)) \<or> factors r = None))))"
  shows "\<exists>msg. calculatePremium e d t ds = ErrorResult msg"
  using assms
  by (auto simp: calculatePremium_def calculatePremium_try_def
      split: option.splits jsval.splits)


lemma applyFactors_append:
  "applyFactors e ds running (xs @ ys) = applyFactors e ds (applyFactors e ds running xs) ys"
  by (induction xs arbitrary: running) simp_all

lemma applyFactor_absent:
  "lookupFact e ds (key f) = None \<Longrightarrow> applyFactor e ds running f = running"
  by (simp add: applyFactor_def)

text \<open>A factor whose key reads as \<open>undefined\<close> in the fact map is skipped: it leaves
  the running total as it is, the evaluation is the one of the rule set without that
  factor, and the engine returns a premium, not an error.\<close>

lemma absent_fact_skips_factor:
  assumes absent: "lookupFact e ds (key f) = None"
    and up: "\<not> prismaDown e"
    and prod: "findProduct d t = Some p" "isActive p" "pricingRules p = Some r"
      "baseRate r = Some (JNum b)" "factors r = Some (fs @ f # gs)"
  shows "applyFactor e ds running f = running
         \<and> applyFactors e ds running (fs @ f # gs) = applyFactors e ds running (fs @ gs)
         \<and> calculatePremium e d t ds
             = PremiumResult (Math_round (applyFactors e ds b (fs @ gs)))"
proof -
  have skip: "\<And>x. applyFactor e ds x f = x"
    using absent by (rule applyFactor_absent)
  have drop: "\<And>x. applyFactors e ds x (fs @ f # gs) = applyFactors e ds x (fs @ gs)"
    by (simp add: applyFactors_append skip)
  show ?thesis
    using skip drop calculatePremium_valid [OF up prod] by simp
qed

lemma lookupFact_own_absent:
  "inheritedProperty e k = None \<Longrightarrow> (lookupFact e ds k = None) = (map_of ds k = None)"
  by (simp add: lookupFact_def split: option.splits)

text \<open>
  Claim C7 says that every factor whose fact key is absent from the fact map is skipped
  without its modifier being applied. The engine tests the read \<open>details[factor.key]\<close>
  against \<open>undefined\<close>, and a key that names a member every object inherits does not
  read as \<open>undefined\<close>: for the fact map that holds only driverAge, the factor
  (constructor lt 'zzz', add 10000) is applied and the premium is 70000, not the base
  amount 60000. No error is produced.
\<close>

theorem inherited_key_factor_not_skipped:
  "map_of [(''driverAge'', JNum 30)] (key constructorFactor) = None
   \<and> calculatePremium test_env
         (catalog \<lparr>baseRate = Some (JNum 60000), factors = Some [constructorFactor]\<rparr>)
         ''motor'' [(''driverAge'', JNum 30)] = PremiumResult 70000"
  using Math_round_int [of 70000]
  by (simp add: calculatePremium_def calculatePremium_try_def findProduct_catalog
      motorProductWith_def applyFactor_def lookupFact_def conditionMet_def
      constructorFactor_def test_env_def)

section \<open>Properties of the payment-confirmation handler\<close>

lemma find_map_preserve:
  "(\<And>x. P (f x) = P x) \<Longrightarrow> find P (map f xs) = map_option f (find P xs)"
  by (induction xs) simp_all

lemma findQuote_updateQuoteStatus:
  "findQuote (updateQuoteStatus d i s) q
     = map_option (\<lambda>x. if qid x = i then x\<lparr>status := s\<rparr> else x) (findQuote d q)"
  unfolding findQuote_def updateQuoteStatus_def
  by (simp add: find_map_preserve)

lemma findQuote_qid: "findQuote d q = Some x \<Longrightarrow> qid x = q"
  by (auto simp: findQuote_def find_Some_iff)

lemma findOrCreate_quotes:
  "findOrCreateUserAndConversation e d w = (u, c, d', t) \<Longrightarrow> quotes d' = quotes d"
  by (auto simp: findOrCreateUserAndConversation_def Let_def split: option.splits)

lemma addSystemMessage_quotes:
  "quotes (fst (addSystemMessageToConversation e d w s)) = quotes d"
  by (auto simp: addSystemMessageToConversation_def updateConversationHistory_def Let_def
      split: prod.splits dest: findOrCreate_quotes)

lemma addSystemMessage_quotes':
  "addSystemMessageToConversation e d w s = (d', t) \<Longrightarrow> quotes d' = quotes d"
  using addSystemMessage_quotes [of e d w s] by simp

lemma findQuote_cong: "quotes d' = quotes d \<Longrightarrow> findQuote d' q = findQuote d q"
  by (simp add: findQuote_def)

lemma findOrCreate_trace:
  "findOrCreateUserAndConversation e d w = (u, c, d', t)
   \<Longrightarrow> set t \<subseteq> {UserCreate w, ConversationCreate (uid u)}"
  by (auto simp: findOrCreateUserAndConversation_def Let_def split: option.splits)

lemma addSystemMessage_trace:
  "x \<in> set (snd (addSystemMessageToConversation e d w s))
   \<Longrightarrow> (\<exists>a. x = UserCreate a) \<or> (\<exists>a. x = ConversationCreate a)
       \<or> (\<exists>a h. x = ConversationUpdateHistory a h)"
  by (auto simp: addSystemMessageToConversation_def Let_def
      split: prod.splits if_splits dest!: findOrCreate_trace)

lemma generate_trace:
  "x \<in> set (snd (generateAndUploadCertificate e d q))
   \<Longrightarrow> (\<exists>a. x = PdfCoRequest a) \<or> (\<exists>a. x = CloudinaryUploadStream a)"
  by (auto simp: generateAndUploadCertificate_def Let_def split: option.splits if_splits)


lemma fulfillmentStep_generate_once:
  "count_list (fulfillmentStep e d w quote) (GenerateCertificate (qid quote)) = 1"
proof (cases "generateAndUploadCertificate e d (qid quote)")
  case (Pair r t)
  have "GenerateCertificate (qid quote) \<notin> set t"
    using generate_trace [of "GenerateCertificate (qid quote)" e d "qid quote"] Pair by auto
  then have "count_list t (GenerateCertificate (qid quote)) = 0"
    by (simp add: count_list_0_iff)
  then show ?thesis using Pair
    by (auto simp: fulfillmentStep_def sendDocument_def split: sum.splits option.splits)
qed

lemma fulfillmentStep_members:
  assumes "x \<in> set (fulfillmentStep e d w quote)"
  shows "x = GenerateCertificate (qid quote) \<or> (\<exists>a. x = PdfCoRequest a)
         \<or> (\<exists>a. x = CloudinaryUploadStream a) \<or> (\<exists>a b c k. x = SendDocument a b c k)
         \<or> x = SendWhatsAppMessage w degradedMessage"
proof (cases "generateAndUploadCertificate e d (qid quote)")
  case (Pair r t)
  note gen = generate_trace [of x e d "qid quote"]
  show ?thesis
  proof (cases r)
    case (Inl err)
    then show ?thesis using assms Pair gen by (auto simp: fulfillmentStep_def)
  next
    case (Inr url)
    then show ?thesis using assms Pair gen
      by (cases "whatsappPostDocument e w url")
        (auto simp: fulfillmentStep_def sendDocument_def)
  qed
qed

lemma success_not_degraded: "successMessage e quote user \<noteq> degradedMessage"
  by (simp add: successMessage_def degradedMessage_def)

lemma processCheckoutCompleted_payable:
  assumes "\<not> prismaDown e" "findQuote d q = Some quote"
    "findUserById d (userId quote) = Some user" "status quote \<noteq> ''paid''"
    "whatsappId user = Some w" "w \<noteq> []"
  shows "processCheckoutCompleted e d q =
     (Inr (),
      fst (addSystemMessageToConversation e (updateQuoteStatus d q ''paid'') w (paymentNote quote)),
      [QuoteUpdateStatus q ''paid'', SendWhatsAppMessage w (successMessage e quote user)]
        @ snd (addSystemMessageToConversation e (updateQuoteStatus d q ''paid'') w (paymentNote quote))
        @ fulfillmentStep e
            (fst (addSystemMessageToConversation e (updateQuoteStatus d q ''paid'') w
                   (paymentNote quote))) w quote)"
  using assms
  by (simp add: processCheckoutCompleted_def Let_def split: prod.splits)

lemma processCheckoutCompleted_replay:
  assumes "processCheckoutCompleted e1 d q = (Inr (), d1, t1)"
  shows "snd (processCheckoutCompleted e2 d1 q) = (d1, [])"
proof (cases "findQuote d q")
  case None
  then show ?thesis using assms
    by (auto simp: processCheckoutCompleted_def split: if_splits)
next
  case (Some quote)
  note quote = Some
  have qq: "qid quote = q" using quote by (rule findQuote_qid)
  show ?thesis
  proof (cases "findUserById d (userId quote)")
    case None
    then show ?thesis using assms quote
      by (auto simp: processCheckoutCompleted_def split: if_splits)
  next
    case (Some user)
    show ?thesis
    proof (cases "status quote = ''paid''")
      case True
      then show ?thesis using assms quote Some
        by (auto simp: processCheckoutCompleted_def split: if_splits)
    next
      case False
      have d1: "quotes d1 = quotes (updateQuoteStatus d q ''paid'')"
        using assms quote Some False
        by (auto simp: processCheckoutCompleted_def Let_def
            split: if_splits option.splits prod.splits dest: addSystemMessage_quotes')
      have "findQuote d1 q = Some (quote\<lparr>status := ''paid''\<rparr>)"
        using quote qq by (simp add: findQuote_cong [OF d1] findQuote_updateQuoteStatus)
      then show ?thesis
        by (auto simp: processCheckoutCompleted_def split: option.splits)
    qed
  qed
qed


lemma payable_trace_counts:
  assumes t: "t = [QuoteUpdateStatus q ''paid'', SendWhatsAppMessage w (successMessage e quote user)]
                @ snd (addSystemMessageToConversation e dq w note)
                @ fulfillmentStep e dn w quote"
    and q: "qid quote = q"
  shows "count_list t (QuoteUpdateStatus q ''paid'') = 1"
    and "count_list t (GenerateCertificate q) = 1"
    and "count_list t (SendWhatsAppMessage w (successMessage e quote user)) = 1"
proof -
  let ?sys = "snd (addSystemMessageToConversation e dq w note)"
  let ?ful = "fulfillmentStep e dn w quote"
  have sys: "\<And>x. x \<in> set ?sys \<Longrightarrow>
      (\<exists>a. x = UserCreate a) \<or> (\<exists>a. x = ConversationCreate a)
      \<or> (\<exists>a h. x = ConversationUpdateHistory a h)"
    by (rule addSystemMessage_trace)
  have ful: "\<And>x. x \<in> set ?ful \<Longrightarrow>
      x = GenerateCertificate (qid quote) \<or> (\<exists>a. x = PdfCoRequest a)
      \<or> (\<exists>a. x = CloudinaryUploadStream a) \<or> (\<exists>a b c k. x = SendDocument a b c k)
      \<or> x = SendWhatsAppMessage w degradedMessage"
    by (rule fulfillmentStep_members)
  have s1: "count_list ?sys (QuoteUpdateStatus q ''paid'') = 0"
    "count_list ?sys (GenerateCertificate q) = 0"
    "count_list ?sys (SendWhatsAppMessage w (successMessage e quote user)) = 0"
    using sys by (auto simp: count_list_0_iff)
  have f1: "count_list ?ful (QuoteUpdateStatus q ''paid'') = 0"
    "count_list ?ful (SendWhatsAppMessage w (successMessage e quote user)) = 0"
    using ful success_not_degraded [of e quote user] by (auto simp: count_list_0_iff)
  have f2: "count_list ?ful (GenerateCertificate q) = 1"
    using fulfillmentStep_generate_once [of e dn w quote] q by simp
  show "count_list t (QuoteUpdateStatus q ''paid'') = 1"
    and "count_list t (GenerateCertificate q) = 1"
    and "count_list t (SendWhatsAppMessage w (successMessage e quote user)) = 1"
    using s1 f1 f2 by (simp_all add: t)
qed

lemma handle_completed:
  assumes "constructEvent e rawBody sig = Inr ev" "etype ev = ''checkout.session.completed''"
    "metadata_quoteId ev = Some q" "q \<noteq> []"
  shows "handleStripeWebhook e d rawBody sig = processCheckoutCompleted e d q"
  using assms by (simp add: handleStripeWebhook_def)

lemma processCheckoutCompleted_no_whatsapp:
  assumes "\<not> prismaDown e" "findQuote d q = Some quote"
    "findUserById d (userId quote) = Some user" "status quote \<noteq> ''paid''"
    "whatsappId user = None \<or> whatsappId user = Some []"
  shows "processCheckoutCompleted e d q
           = (Inr (), updateQuoteStatus d q ''paid'', [QuoteUpdateStatus q ''paid''])"
  using assms
  by (auto simp: processCheckoutCompleted_def Let_def split: option.splits)

text \<open>
  Claim C1, as amended. When a verified payment-confirmation event has been processed
  (the handler acknowledged it), processing the same event again changes no state and has
  no side effect. When the event names a quote that exists with its user and is not yet
  paid, the two runs together hold exactly one transition of the quote to paid; they hold
  exactly one invocation of certificate generation and exactly one confirmation message
  when the user has a WhatsApp identifier, and nothing but the transition when the user
  has none.
\<close>

theorem replay_idempotent:
  assumes same: "constructEvent e2 rawBody sig = constructEvent e1 rawBody sig"
    and first: "handleStripeWebhook e1 d rawBody sig = (Inr (), d1, t1)"
    and second: "handleStripeWebhook e2 d1 rawBody sig = (r2, d2, t2)"
  shows "d2 = d1 \<and> t2 = []
    \<and> (constructEvent e1 rawBody sig = Inr ev \<and> etype ev = ''checkout.session.completed''
        \<and> metadata_quoteId ev = Some q \<and> q \<noteq> []
        \<and> findQuote d q = Some quote \<and> findUserById d (userId quote) = Some user
        \<and> status quote \<noteq> ''paid'' \<and> whatsappId user = Some w \<and> w \<noteq> []
       \<longrightarrow> count_list (t1 @ t2) (QuoteUpdateStatus q ''paid'') = 1
           \<and> count_list (t1 @ t2) (GenerateCertificate q) = 1
           \<and> count_list (t1 @ t2) (SendWhatsAppMessage w (successMessage e1 quote user)) = 1)
    \<and> (constructEvent e1 rawBody sig = Inr ev \<and> etype ev = ''checkout.session.completed''
        \<and> metadata_quoteId ev = Some q \<and> q \<noteq> []
        \<and> findQuote d q = Some quote \<and> findUserById d (userId quote) = Some user
        \<and> status quote \<noteq> ''paid''
        \<and> (whatsappId user = None \<or> whatsappId user = Some [])
       \<longrightarrow> t1 @ t2 = [QuoteUpdateStatus q ''paid''])"
proof -
  have quiet: "d2 = d1 \<and> t2 = []"
  proof (cases "constructEvent e1 rawBody sig")
    case (Inl err)
    then show ?thesis using same second by (simp add: handleStripeWebhook_def)
  next
    case (Inr ev')
    show ?thesis
    proof (cases "etype ev' = ''checkout.session.completed''
                  \<and> (\<exists>q'. metadata_quoteId ev' = Some q' \<and> q' \<noteq> [])")
      case True
      then obtain q' where q': "metadata_quoteId ev' = Some q'" "q' \<noteq> []"
        and ty: "etype ev' = ''checkout.session.completed''" by blast
      have "processCheckoutCompleted e1 d q' = (Inr (), d1, t1)"
        using first handle_completed [OF Inr ty q'] by simp
      then have "snd (processCheckoutCompleted e2 d1 q') = (d1, [])"
        by (rule processCheckoutCompleted_replay)
      moreover have "handleStripeWebhook e2 d1 rawBody sig = processCheckoutCompleted e2 d1 q'"
        using same Inr ty q' by (simp add: handleStripeWebhook_def)
      ultimately have "snd (handleStripeWebhook e2 d1 rawBody sig) = (d1, [])" by simp
      then show ?thesis unfolding second by simp
    next
      case False
      then show ?thesis using Inr same first second
        by (auto simp: handleStripeWebhook_def split: option.splits if_splits)
    qed
  qed
  have once: "count_list (t1 @ t2) (QuoteUpdateStatus q ''paid'') = 1
           \<and> count_list (t1 @ t2) (GenerateCertificate q) = 1
           \<and> count_list (t1 @ t2) (SendWhatsAppMessage w (successMessage e1 quote user)) = 1"
    if ev: "constructEvent e1 rawBody sig = Inr ev" "etype ev = ''checkout.session.completed''"
      "metadata_quoteId ev = Some q" "q \<noteq> []"
      and pay: "findQuote d q = Some quote" "findUserById d (userId quote) = Some user"
      "status quote \<noteq> ''paid''" "whatsappId user = Some w" "w \<noteq> []"
  proof -
    have run: "processCheckoutCompleted e1 d q = (Inr (), d1, t1)"
      using first handle_completed [OF ev] by simp
    have up: "\<not> prismaDown e1"
      using run by (auto simp: processCheckoutCompleted_def split: if_splits)
    have t1: "t1 = [QuoteUpdateStatus q ''paid'', SendWhatsAppMessage w (successMessage e1 quote user)]
        @ snd (addSystemMessageToConversation e1 (updateQuoteStatus d q ''paid'') w (paymentNote quote))
        @ fulfillmentStep e1 d1 w quote"
      using run processCheckoutCompleted_payable [OF up pay] by auto
    show ?thesis
      using payable_trace_counts [OF t1 findQuote_qid [OF pay(1)]] quiet by simp
  qed
  have bare: "t1 @ t2 = [QuoteUpdateStatus q ''paid'']"
    if ev: "constructEvent e1 rawBody sig = Inr ev" "etype ev = ''checkout.session.completed''"
      "metadata_quoteId ev = Some q" "q \<noteq> []"
      and pay: "findQuote d q = Some quote" "findUserById d (userId quote) = Some user"
      "status quote \<noteq> ''paid''" "whatsappId user = None \<or> whatsappId user = Some []"
  proof -
    have run: "processCheckoutCompleted e1 d q = (Inr (), d1, t1)"
      using first handle_completed [OF ev] by simp
    have up: "\<not> prismaDown e1"
      using run by (auto simp: processCheckoutCompleted_def split: if_splits)
    show ?thesis
      using run processCheckoutCompleted_no_whatsapp [OF up pay] quiet by auto
  qed
  show ?thesis using quiet once bare by blast
qed

text \<open>
  Claim C2. An event whose signature does not verify is rejected: the handler throws the
  verification error, the controller answers 400, the stored state is unchanged (so no
  quote changes status) and nothing is sent.
\<close>

theorem invalid_signature_rejected:
  assumes "constructEvent e rawBody sig = Inl err"
  shows "handleStripeWebhook e d rawBody sig
           = (Inl ''Webhook signature verification failed.'', d, [])
       \<and> (\<exists>msg. stripeWebhookHandler e d (Some sig) (Some (BufferBody rawBody))
                   = ((400, SendText msg), d, []))
       \<and> (\<exists>msg. stripeWebhookHandler e d (Some sig) (Some (StringBody rawBody))
                   = ((400, SendText msg), d, []))"
  using assms by (simp add: handleStripeWebhook_def stripeWebhookHandler_def)

theorem invalid_signature_rejected_witness:
  "constructEvent test_env ''quote-0001'' ''forged''
     = Inl ''No signatures found matching the expected signature for payload.''
   \<and> handleStripeWebhook test_env test_db ''quote-0001'' ''forged''
       = (Inl ''Webhook signature verification failed.'', test_db, [])"
proof -
  have bad: "constructEvent test_env ''quote-0001'' ''forged''
     = Inl ''No signatures found matching the expected signature for payload.''"
    by (simp add: test_env_def test_event_def)
  show ?thesis using bad invalid_signature_rejected [OF bad, of test_db] by simp
qed

lemma findQuote_after_payable:
  assumes "findQuote d q = Some quote"
  shows "findQuote (fst (addSystemMessageToConversation e (updateQuoteStatus d q ''paid'') w n)) q
           = Some (quote\<lparr>status := ''paid''\<rparr>)"
  using assms findQuote_qid [OF assms]
  by (simp add: findQuote_cong [OF addSystemMessage_quotes] findQuote_updateQuoteStatus)

text \<open>
  Claim C3, as amended. For a verified checkout-completed event naming an existing quote
  whose user exists, the handler's guard is on the status paid alone: a quote already
  paid is left as it is with no effect, and a quote in any other status (quoted, but draft
  as well) is moved to paid exactly once; the confirmation message and the certificate
  generation accompany the transition, once each, when the user has a WhatsApp identifier.
\<close>

theorem paid_transition_guard:
  assumes ev: "constructEvent e rawBody sig = Inr ev"
      "etype ev = ''checkout.session.completed''" "metadata_quoteId ev = Some q" "q \<noteq> []"
    and up: "\<not> prismaDown e"
    and quote: "findQuote d q = Some quote"
    and user: "findUserById d (userId quote) = Some user"
    and run: "handleStripeWebhook e d rawBody sig = (r, d', t)"
  shows "(status quote = ''paid'' \<longrightarrow> d' = d \<and> t = [])
       \<and> (status quote \<noteq> ''paid'' \<longrightarrow>
            findQuote d' q = Some (quote\<lparr>status := ''paid''\<rparr>)
            \<and> count_list t (QuoteUpdateStatus q ''paid'') = 1)
       \<and> (status quote \<noteq> ''paid'' \<and> whatsappId user = Some w \<and> w \<noteq> [] \<longrightarrow>
            count_list t (SendWhatsAppMessage w (successMessage e quote user)) = 1
            \<and> count_list t (GenerateCertificate q) = 1)"
proof -
  have run': "processCheckoutCompleted e d q = (r, d', t)"
    using run handle_completed [OF ev] by simp
  have a: "d' = d \<and> t = []" if "status quote = ''paid''"
    using that run' up quote user by (simp add: processCheckoutCompleted_def)
  have c: "findQuote d' q = Some (quote\<lparr>status := ''paid''\<rparr>)
          \<and> count_list t (QuoteUpdateStatus q ''paid'') = 1
          \<and> count_list t (SendWhatsAppMessage w' (successMessage e quote user)) = 1
          \<and> count_list t (GenerateCertificate q) = 1"
    if np: "status quote \<noteq> ''paid''" and w: "whatsappId user = Some w'" "w' \<noteq> []" for w'
  proof -
    note pay = processCheckoutCompleted_payable [OF up quote user np w]
    have d': "d' = fst (addSystemMessageToConversation e (updateQuoteStatus d q ''paid'') w'
                    (paymentNote quote))"
      using run' pay by auto
    have t: "t = [QuoteUpdateStatus q ''paid'', SendWhatsAppMessage w' (successMessage e quote user)]
        @ snd (addSystemMessageToConversation e (updateQuoteStatus d q ''paid'') w' (paymentNote quote))
        @ fulfillmentStep e d' w' quote"
      using run' pay by auto
    show ?thesis
      using payable_trace_counts [OF t findQuote_qid [OF quote]]
        findQuote_after_payable [OF quote] d' by simp
  qed
  have b: "findQuote d' q = Some (quote\<lparr>status := ''paid''\<rparr>)
          \<and> count_list t (QuoteUpdateStatus q ''paid'') = 1"
    if np: "status quote \<noteq> ''paid''"
  proof (cases "\<exists>w'. whatsappId user = Some w' \<and> w' \<noteq> []")
    case True
    then show ?thesis using c [OF np] by blast
  next
    case False
    then have "processCheckoutCompleted e d q
                 = (Inr (), updateQuoteStatus d q ''paid'', [QuoteUpdateStatus q ''paid''])"
      using up quote user np
      by (auto simp: processCheckoutCompleted_def Let_def split: option.splits)
    then show ?thesis
      using run' quote findQuote_qid [OF quote] by (auto simp: findQuote_updateQuoteStatus)
  qed
  show ?thesis using a b c by blast
qed

text \<open>
  Claim C9. When certificate generation or document delivery fails for a confirmed
  payment, the failure stays inside the fulfillment step: the last thing the handler does
  is send the user the degraded-service message, it returns its acknowledgement and the
  quote is paid.
\<close>

theorem fulfillment_failure_contained:
  assumes ev: "constructEvent e rawBody sig = Inr ev"
      "etype ev = ''checkout.session.completed''" "metadata_quoteId ev = Some q" "q \<noteq> []"
    and up: "\<not> prismaDown e"
    and quote: "findQuote d q = Some quote"
    and user: "findUserById d (userId quote) = Some user"
    and np: "status quote \<noteq> ''paid''"
    and w: "whatsappId user = Some w" "w \<noteq> []"
    and run: "handleStripeWebhook e d rawBody sig = (r, d', t)"
    and fail: "(\<exists>err. fst (generateAndUploadCertificate e d' q) = Inl err)
             \<or> (\<exists>url err. fst (generateAndUploadCertificate e d' q) = Inr url
                   \<and> whatsappPostDocument e w url = Some err)"
  shows "r = Inr ()
       \<and> t \<noteq> [] \<and> last t = SendWhatsAppMessage w degradedMessage
       \<and> findQuote d' q = Some (quote\<lparr>status := ''paid''\<rparr>)"
proof -
  have run': "processCheckoutCompleted e d q = (r, d', t)"
    using run handle_completed [OF ev] by simp
  note pay = processCheckoutCompleted_payable [OF up quote user np w]
  have r: "r = Inr ()" using run' pay by auto
  have d': "d' = fst (addSystemMessageToConversation e (updateQuoteStatus d q ''paid'') w
                  (paymentNote quote))"
    using run' pay by auto
  have t: "t = [QuoteUpdateStatus q ''paid'', SendWhatsAppMessage w (successMessage e quote user)]
      @ snd (addSystemMessageToConversation e (updateQuoteStatus d q ''paid'') w (paymentNote quote))
      @ fulfillmentStep e d' w quote"
    using run' pay by auto
  have qq: "qid quote = q" using quote by (rule findQuote_qid)
  have "\<exists>pre. fulfillmentStep e d' w quote = pre @ [SendWhatsAppMessage w degradedMessage]"
  proof (cases "generateAndUploadCertificate e d' q")
    case (Pair res tr)
    show ?thesis
    proof (cases res)
      case (Inl err)
      then show ?thesis using Pair qq by (simp add: fulfillmentStep_def)
    next
      case (Inr url)
      then obtain err where "whatsappPostDocument e w url = Some err"
        using fail Pair by auto
      then show ?thesis using Pair Inr qq
        by (simp add: fulfillmentStep_def sendDocument_def)
    qed
  qed
  then obtain pre where "fulfillmentStep e d' w quote = pre @ [SendWhatsAppMessage w degradedMessage]"
    by blast
  then have "t \<noteq> [] \<and> last t = SendWhatsAppMessage w degradedMessage"
    using t by simp
  then show ?thesis
    using r findQuote_after_payable [OF quote] d' by simp
qed

section \<open>Properties of the tool dispatch\<close>

lemma find_append_cases:
  "find P (xs @ ys) = (case find P xs of None \<Rightarrow> find P ys | Some x \<Rightarrow> Some x)"
  by (induction xs) simp_all

lemma findOrCreate_user:
  assumes "findOrCreateUserAndConversation e d w = (u, c, d1, t1)"
  shows "findUserByWhatsappId d1 w = Some u"
    and "quotes d1 = quotes d"
    and "insuranceProducts d1 = insuranceProducts d"
  using assms
  by (auto simp: findOrCreateUserAndConversation_def Let_def findUserByWhatsappId_def
      find_append_cases split: option.splits)

lemma findProduct_cong:
  "insuranceProducts d' = insuranceProducts d \<Longrightarrow> findProduct d' t = findProduct d t"
  by (simp add: findProduct_def)

lemma findUserByWhatsappId_updateUserFullName:
  "findUserByWhatsappId (updateUserFullName d i n) w
     = map_option (\<lambda>u. if uid u = i then u\<lparr>fullName := Some n\<rparr> else u)
         (findUserByWhatsappId d w)"
  unfolding findUserByWhatsappId_def updateUserFullName_def
  by (simp add: find_map_preserve)

lemma dispatch_payment_link_unknown:
  assumes "fname call = ''generate_payment_link''"
    and "findProduct d (insuranceType (args call)) = None"
  shows "dispatchToolCall e d user call
           = (Inl (''Product type '' @ insuranceType (args call) @ '' not found.''),
              updateUserFullName d (uid user) (customerName (args call)),
              [UserUpdateFullName (uid user) (customerName (args call))])"
  using assms
  by (simp add: dispatchToolCall_def Let_def findProduct_def updateUserFullName_def)


lemma dispatch_payment_link_users:
  assumes "fname call = ''generate_payment_link''"
    and "dispatchToolCall e d user call = (r, d2, t)"
  shows "users d2 = users (updateUserFullName d (uid user) (customerName (args call)))"
    and "\<exists>post. t = UserUpdateFullName (uid user) (customerName (args call)) # post"
  using assms
  by (auto simp: dispatchToolCall_def Let_def createStripeCheckoutSession_def
      split: option.splits sum.splits prod.splits)

lemma finishTurn_users:
  "finishTurn e d c w h m resp tt txt t = (r, d', t') \<Longrightarrow>
     users d' = users d \<and> quotes d' = quotes d \<and> (\<exists>post. t' = t @ post)"
  by (auto simp: finishTurn_def Let_def updateConversationHistory_def)

lemma findUserByWhatsappId_cong:
  "users d' = users d \<Longrightarrow> findUserByWhatsappId d' w = findUserByWhatsappId d w"
  by (simp add: findUserByWhatsappId_def)

lemma processMessage_unknown_product:
  assumes up: "\<not> prismaDown e"
    and foc: "findOrCreateUserAndConversation e d w = (user, conversation, d1, t1)"
    and llm: "chatSendMessage e (injectDynamicInstructions d1 (history conversation) userMessage)
                userMessage = Inr response"
    and call: "functionCalls response = call # others" "fname call = ''generate_payment_link''"
    and unknown: "findProduct d (insuranceType (args call)) = None"
  shows "processMessage e d w userMessage
           = (updateUserFullName d1 (uid user) (customerName (args call)),
              t1 @ [ChatSendMessage userMessage,
                    UserUpdateFullName (uid user) (customerName (args call)),
                    SendWhatsAppMessage w sorryMessage])"
proof -
  have unknown1: "findProduct d1 (insuranceType (args call)) = None"
    using unknown findProduct_cong [OF findOrCreate_user(3) [OF foc]] by simp
  note disp = dispatch_payment_link_unknown [OF call(2) unknown1, of e user]
  show ?thesis
    using up foc llm call(1) disp
    by (simp add: processMessage_def processMessage_try_def Let_def)
qed

text \<open>
  Claim C8, as amended. A generate_payment_link call whose product type resolves to no
  product makes the dispatch throw (Product type ... not found): the turn is aborted, no
  tool result goes back to the dialogue model, the history is not persisted, the user is
  sent the generic retry message, and no quote is created. The display name has been
  updated by then.
\<close>

theorem unknown_product_aborts_turn:
  assumes up: "\<not> prismaDown e"
    and foc: "findOrCreateUserAndConversation e d w = (user, conversation, d1, t1)"
    and llm: "chatSendMessage e (injectDynamicInstructions d1 (history conversation) userMessage)
                userMessage = Inr response"
    and call: "functionCalls response = call # others" "fname call = ''generate_payment_link''"
    and unknown: "findProduct d (insuranceType (args call)) = None"
  shows "dispatchToolCall e d1 user call
           = (Inl (''Product type '' @ insuranceType (args call) @ '' not found.''),
              updateUserFullName d1 (uid user) (customerName (args call)),
              [UserUpdateFullName (uid user) (customerName (args call))])
       \<and> processMessage e d w userMessage
           = (updateUserFullName d1 (uid user) (customerName (args call)),
              t1 @ [ChatSendMessage userMessage,
                    UserUpdateFullName (uid user) (customerName (args call)),
                    SendWhatsAppMessage w sorryMessage])
       \<and> quotes (fst (processMessage e d w userMessage)) = quotes d"
proof -
  have unknown1: "findProduct d1 (insuranceType (args call)) = None"
    using unknown findProduct_cong [OF findOrCreate_user(3) [OF foc]] by simp
  note disp = dispatch_payment_link_unknown [OF call(2) unknown1, of e user]
  note run = processMessage_unknown_product [OF up foc llm call unknown]
  have "quotes (updateUserFullName d1 (uid user) (customerName (args call))) = quotes d"
    using findOrCreate_user(2) [OF foc] by (simp add: updateUserFullName_def)
  then show ?thesis using disp run by simp
qed

text \<open>
  Claim C10. In a generate_payment_link call the user's display name is set to the
  supplied customer name as the first effect after the model's answer, before the product
  is resolved; the stored name is the new one at the end of the turn whatever happens
  next, also when the product type is unknown and no quote is created.
\<close>

theorem display_name_updated_first:
  assumes up: "\<not> prismaDown e"
    and foc: "findOrCreateUserAndConversation e d w = (user, conversation, d1, t1)"
    and llm: "chatSendMessage e (injectDynamicInstructions d1 (history conversation) userMessage)
                userMessage = Inr response"
    and call: "functionCalls response = call # others" "fname call = ''generate_payment_link''"
    and run: "processMessage e d w userMessage = (d', t)"
  shows "findUserByWhatsappId d' w = Some (user\<lparr>fullName := Some (customerName (args call))\<rparr>)
       \<and> (\<exists>post. t = t1 @ [ChatSendMessage userMessage,
                              UserUpdateFullName (uid user) (customerName (args call))] @ post)
       \<and> (findProduct d (insuranceType (args call)) = None \<longrightarrow>
             quotes d' = quotes d \<and> (\<nexists>q. QuoteCreate q \<in> set t))"
proof -
  let ?n = "customerName (args call)"
  let ?upd = "UserUpdateFullName (uid user) ?n"
  obtain r d2 t3 where disp: "dispatchToolCall e d1 user call = (r, d2, t3)"
    by (cases "dispatchToolCall e d1 user call") auto
  from dispatch_payment_link_users [OF call(2) disp]
  obtain post where u2: "users d2 = users (updateUserFullName d1 (uid user) ?n)"
    and t3: "t3 = ?upd # post" by blast
  have found: "findUserByWhatsappId (updateUserFullName d1 (uid user) ?n) w
                 = Some (user\<lparr>fullName := Some ?n\<rparr>)"
    using findOrCreate_user(1) [OF foc]
    by (simp add: findUserByWhatsappId_updateUserFullName)
  have main: "users d' = users d2 \<and> (\<exists>post'. t = t1 @ [ChatSendMessage userMessage, ?upd] @ post')"
  proof (cases r)
    case (Inl err)
    then show ?thesis using up foc llm call(1) disp run t3
      by (auto simp: processMessage_def processMessage_try_def Let_def)
  next
    case (Inr toolResult)
    note r = this
    show ?thesis
    proof (cases "chatSendFunctionResponse e
                    (injectDynamicInstructions d1 (history conversation) userMessage)
                    userMessage call toolResult")
      case (Inl err)
      then show ?thesis using up foc llm call(1) disp run t3 r
        by (auto simp: processMessage_def processMessage_try_def Let_def)
    next
      case (Inr reply)
      then show ?thesis using up foc llm call(1) disp run t3 r
        by (auto simp: processMessage_def processMessage_try_def Let_def finishTurn_def
            updateConversationHistory_def)
    qed
  qed
  have a: "findUserByWhatsappId d' w = Some (user\<lparr>fullName := Some ?n\<rparr>)"
    using main u2 found findUserByWhatsappId_cong [of d' "updateUserFullName d1 (uid user) ?n" w]
    by simp
  have c: "quotes d' = quotes d \<and> (\<nexists>q. QuoteCreate q \<in> set t)"
    if unknown: "findProduct d (insuranceType (args call)) = None"
  proof -
    have tr: "\<And>x. x \<in> set t1 \<Longrightarrow> x = UserCreate w \<or> x = ConversationCreate (uid user)"
      using findOrCreate_trace [OF foc] by auto
    have "(d', t) = (updateUserFullName d1 (uid user) ?n,
              t1 @ [ChatSendMessage userMessage, ?upd, SendWhatsAppMessage w sorryMessage])"
      using processMessage_unknown_product [OF up foc llm call unknown] run by simp
    then show ?thesis
      using findOrCreate_user(2) [OF foc] tr by (auto simp: updateUserFullName_def)
  qed
  show ?thesis using a main c by blast
qed

section \<open>The properties at concrete inputs\<close>

lemma test_event_good:
  "constructEvent test_env ''quote-0001'' ''good''
     = Inr \<lparr>etype = ''checkout.session.completed'', metadata_quoteId = Some ''quote-0001''\<rparr>"
  by (simp add: test_env_def test_event_def)

lemma test_findQuote: "findQuote test_db ''quote-0001'' = Some quote1"
  by (simp add: findQuote_def test_db_def quote1_def)

lemma test_findUser: "findUserById test_db (userId quote1) = Some alice"
  by (simp add: findUserById_def test_db_def quote1_def alice_def)

lemma test_event_bob:
  "constructEvent test_env ''quote-0002'' ''good''
     = Inr \<lparr>etype = ''checkout.session.completed'', metadata_quoteId = Some ''quote-0002''\<rparr>"
  by (simp add: test_env_def test_event_def)

lemma bob_findQuote: "findQuote bob_db ''quote-0002'' = Some quote2"
  by (simp add: findQuote_def bob_db_def quote1_def quote2_def)

lemma bob_findUser: "findUserById bob_db (userId quote2) = Some bob"
  by (simp add: findUserById_def bob_db_def quote2_def alice_def bob_def)

theorem replay_idempotent_witness:
  "fst (handleStripeWebhook test_env test_db ''quote-0001'' ''good'') = Inr ()
   \<and> snd (handleStripeWebhook test_env
            (fst (snd (handleStripeWebhook test_env test_db ''quote-0001'' ''good'')))
            ''quote-0001'' ''good'')
       = (fst (snd (handleStripeWebhook test_env test_db ''quote-0001'' ''good'')), [])
   \<and> count_list (snd (snd (handleStripeWebhook test_env test_db ''quote-0001'' ''good'')))
         (QuoteUpdateStatus ''quote-0001'' ''paid'') = 1
   \<and> count_list (snd (snd (handleStripeWebhook test_env test_db ''quote-0001'' ''good'')))
         (GenerateCertificate ''quote-0001'') = 1
   \<and> count_list (snd (snd (handleStripeWebhook test_env test_db ''quote-0001'' ''good'')))
         (SendWhatsAppMessage ''250788000001'' (successMessage test_env quote1 alice)) = 1
   \<and> handleStripeWebhook test_env bob_db ''quote-0002'' ''good''
       = (Inr (), updateQuoteStatus bob_db ''quote-0002'' ''paid'',
          [QuoteUpdateStatus ''quote-0002'' ''paid''])
   \<and> snd (handleStripeWebhook test_env (updateQuoteStatus bob_db ''quote-0002'' ''paid'')
            ''quote-0002'' ''good'')
       = (updateQuoteStatus bob_db ''quote-0002'' ''paid'', [])"
proof -
  have up: "\<not> prismaDown test_env" by (simp add: test_env_def)
  have ok: "fst (handleStripeWebhook test_env test_db ''quote-0001'' ''good'') = Inr ()"
    using handle_completed [OF test_event_good, where d = test_db]
      processCheckoutCompleted_payable [OF up test_findQuote test_findUser,
        where w = "''250788000001''"]
    by (simp add: quote1_def alice_def)
  obtain d1 t1 where first:
    "handleStripeWebhook test_env test_db ''quote-0001'' ''good'' = (Inr (), d1, t1)"
    using ok by (cases "handleStripeWebhook test_env test_db ''quote-0001'' ''good''") auto
  obtain r2 d2 t2 where second:
    "handleStripeWebhook test_env d1 ''quote-0001'' ''good'' = (r2, d2, t2)"
    by (cases "handleStripeWebhook test_env d1 ''quote-0001'' ''good''") auto
  have pay: "status quote1 \<noteq> ''paid''" "whatsappId alice = Some ''250788000001''"
    by (simp_all add: quote1_def alice_def)
  have with_id: "snd (handleStripeWebhook test_env d1 ''quote-0001'' ''good'') = (d1, [])
     \<and> count_list t1 (QuoteUpdateStatus ''quote-0001'' ''paid'') = 1
     \<and> count_list t1 (GenerateCertificate ''quote-0001'') = 1
     \<and> count_list t1
          (SendWhatsAppMessage ''250788000001'' (successMessage test_env quote1 alice)) = 1"
    using replay_idempotent [OF refl first second,
        where ev = "\<lparr>etype = ''checkout.session.completed'',
                       metadata_quoteId = Some ''quote-0001''\<rparr>"
          and q = "''quote-0001''" and quote = quote1 and user = alice
          and w = "''250788000001''"]
      test_event_good test_findQuote test_findUser pay second
    by auto
  have first': "handleStripeWebhook test_env bob_db ''quote-0002'' ''good''
       = (Inr (), updateQuoteStatus bob_db ''quote-0002'' ''paid'',
          [QuoteUpdateStatus ''quote-0002'' ''paid''])"
    using handle_completed [OF test_event_bob, where d = bob_db]
      processCheckoutCompleted_no_whatsapp [OF up bob_findQuote bob_findUser]
    by (simp add: quote2_def bob_def)
  obtain r3 d3 t3 where second':
    "handleStripeWebhook test_env (updateQuoteStatus bob_db ''quote-0002'' ''paid'')
       ''quote-0002'' ''good'' = (r3, d3, t3)"
    by (cases "handleStripeWebhook test_env (updateQuoteStatus bob_db ''quote-0002'' ''paid'')
                 ''quote-0002'' ''good''") auto
  have without_id: "d3 = updateQuoteStatus bob_db ''quote-0002'' ''paid'' \<and> t3 = []"
    using replay_idempotent [OF refl first' second',
        where ev = "\<lparr>etype = ''checkout.session.completed'',
                       metadata_quoteId = Some ''quote-0002''\<rparr>"
          and q = "''quote-0002''" and quote = quote2 and user = bob]
    by simp
  show ?thesis using with_id without_id first first' second' by simp
qed

text \<open>
  Claim C1 as stated fails: for a quote whose user has no WhatsApp identifier, the event
  and its replay give one transition to paid, no invocation of certificate generation
  and no confirmation message.
\<close>

theorem replay_without_whatsapp_counterexample:
  "whatsappId bob = None
   \<and> findQuote bob_db ''quote-0002'' = Some quote2
   \<and> findUserById bob_db (userId quote2) = Some bob
   \<and> snd (snd (handleStripeWebhook test_env bob_db ''quote-0002'' ''good''))
       = [QuoteUpdateStatus ''quote-0002'' ''paid'']
   \<and> snd (snd (handleStripeWebhook test_env
                 (fst (snd (handleStripeWebhook test_env bob_db ''quote-0002'' ''good'')))
                 ''quote-0002'' ''good'')) = []
   \<and> count_list
         (snd (snd (handleStripeWebhook test_env bob_db ''quote-0002'' ''good''))
          @ snd (snd (handleStripeWebhook test_env
                        (fst (snd (handleStripeWebhook test_env bob_db ''quote-0002'' ''good'')))
                        ''quote-0002'' ''good'')))
         (GenerateCertificate ''quote-0002'') = 0"
proof -
  have up: "\<not> prismaDown test_env" by (simp add: test_env_def)
  have first: "handleStripeWebhook test_env bob_db ''quote-0002'' ''good''
       = (Inr (), updateQuoteStatus bob_db ''quote-0002'' ''paid'',
          [QuoteUpdateStatus ''quote-0002'' ''paid''])"
    using handle_completed [OF test_event_bob, where d = bob_db]
      processCheckoutCompleted_no_whatsapp [OF up bob_findQuote bob_findUser]
    by (simp add: quote2_def bob_def)
  have "processCheckoutCompleted test_env bob_db ''quote-0002''
          = (Inr (), updateQuoteStatus bob_db ''quote-0002'' ''paid'',
             [QuoteUpdateStatus ''quote-0002'' ''paid''])"
    using processCheckoutCompleted_no_whatsapp [OF up bob_findQuote bob_findUser]
    by (simp add: quote2_def bob_def)
  then have "snd (processCheckoutCompleted test_env
                    (updateQuoteStatus bob_db ''quote-0002'' ''paid'') ''quote-0002'')
               = (updateQuoteStatus bob_db ''quote-0002'' ''paid'', [])"
    by (rule processCheckoutCompleted_replay)
  then have second: "snd (snd (handleStripeWebhook test_env
                 (updateQuoteStatus bob_db ''quote-0002'' ''paid'') ''quote-0002'' ''good'')) = []"
    using handle_completed [OF test_event_bob,
        where d = "updateQuoteStatus bob_db ''quote-0002'' ''paid''"]
    by simp
  show ?thesis
    using first second bob_findQuote bob_findUser by (simp add: bob_def)
qed


theorem invalid_product_or_rules_error_witness:
  "findProduct test_db ''travel'' = None
   \<and> calculatePremium test_env test_db ''travel'' [(''age'', JNum 30)]
       = ErrorResult ''Invalid insurance type specified.''"
proof -
  have none: "findProduct test_db ''travel'' = None"
    by (simp add: findProduct_def test_db_def motorProductWith_def)
  then have hyp: "findProduct test_db ''travel'' = None
     \<or> (\<exists>p. findProduct test_db ''travel'' = Some p
          \<and> (\<not> isActive p \<or> pricingRules p = None
              \<or> (\<exists>r. pricingRules p = Some r
                    \<and> ((\<nexists>b. baseRate r = Some (JNum b)) \<or> factors r = None))))"
    by (rule disjI1)
  obtain msg where "calculatePremium test_env test_db ''travel'' [(''age'', JNum 30)]
       = ErrorResult msg"
    using invalid_product_or_rules_error [OF hyp] by blast
  then show ?thesis using none
    by (simp add: calculatePremium_def calculatePremium_try_def test_env_def)
qed


lemma absent_fact_skips_factor_example:
  "lookupFact test_env [(''carYear'', JNum 2008)] ''driverAge'' = None
   \<and> calculatePremium test_env (catalog (motorRules test_env)) ''motor''
         [(''carYear'', JNum 2008)] = PremiumResult 70000"
proof -
  let ?ds = "[(''carYear'', JNum 2008)]"
  let ?f = "\<lparr>key = ''driverAge'', condition = ''lt'', fvalue = JNum 25,
             modifier = roundDouble test_env (14 / 10), ftype = ''multiply''\<rparr>"
  let ?g = "\<lparr>key = ''carYear'', condition = ''lt'', fvalue = JNum 2010,
             modifier = 10000, ftype = ''add''\<rparr>"
  have absent: "lookupFact test_env ?ds (key ?f) = None"
    by (simp add: lookupFact_def test_env_def)
  have up: "\<not> prismaDown test_env" by (simp add: test_env_def)
  have prod: "isActive (motorProductWith (motorRules test_env))"
    "pricingRules (motorProductWith (motorRules test_env)) = Some (motorRules test_env)"
    "baseRate (motorRules test_env) = Some (JNum 60000)"
    "factors (motorRules test_env) = Some ([] @ ?f # [?g])"
    by (simp_all add: motorProductWith_def motorRules_def)
  show ?thesis
    using absent_fact_skips_factor [OF absent up findProduct_catalog prod, of 60000]
      Math_round_int [of 70000]
    by (simp add: applyFactor_def lookupFact_def conditionMet_def test_env_def)
qed

text \<open>
  Claim C3 as stated fails: a quote in status draft is moved to paid, and its certificate
  is generated, by a verified event that names it.
\<close>

theorem draft_quote_paid_counterexample:
  "findQuote draft_db ''quote-0001'' = Some (quote1\<lparr>status := ''draft''\<rparr>)
   \<and> findQuote (fst (snd (handleStripeWebhook test_env draft_db ''quote-0001'' ''good'')))
         ''quote-0001'' = Some (quote1\<lparr>status := ''paid''\<rparr>)
   \<and> count_list (snd (snd (handleStripeWebhook test_env draft_db ''quote-0001'' ''good'')))
         (GenerateCertificate ''quote-0001'') = 1"
proof -
  have up: "\<not> prismaDown test_env" by (simp add: test_env_def)
  have q: "findQuote draft_db ''quote-0001'' = Some (quote1\<lparr>status := ''draft''\<rparr>)"
    by (simp add: findQuote_def draft_db_def test_db_def quote1_def)
  have u: "findUserById draft_db (userId (quote1\<lparr>status := ''draft''\<rparr>)) = Some alice"
    by (simp add: findUserById_def draft_db_def test_db_def quote1_def alice_def)
  have np: "status (quote1\<lparr>status := ''draft''\<rparr>) \<noteq> ''paid''" by simp
  have w: "whatsappId alice = Some ''250788000001''" "''250788000001'' \<noteq> []"
    by (simp_all add: alice_def)
  note pay = processCheckoutCompleted_payable [OF up q u np w]
  have run: "handleStripeWebhook test_env draft_db ''quote-0001'' ''good''
               = processCheckoutCompleted test_env draft_db ''quote-0001''"
    by (rule handle_completed [OF test_event_good]) simp_all
  have "qid (quote1\<lparr>status := ''draft''\<rparr>) = ''quote-0001''" by (simp add: quote1_def)
  then show ?thesis
    using q findQuote_after_payable [OF q] payable_trace_counts(2) [OF refl]
    by (simp add: run pay)
qed


theorem paid_transition_guard_witness:
  "findQuote (fst (snd (handleStripeWebhook test_env test_db ''quote-0001'' ''good'')))
      ''quote-0001'' = Some (quote1\<lparr>status := ''paid''\<rparr>)
   \<and> count_list (snd (snd (handleStripeWebhook test_env test_db ''quote-0001'' ''good'')))
         (QuoteUpdateStatus ''quote-0001'' ''paid'') = 1
   \<and> count_list (snd (snd (handleStripeWebhook test_env test_db ''quote-0001'' ''good'')))
         (SendWhatsAppMessage ''250788000001'' (successMessage test_env quote1 alice)) = 1
   \<and> count_list (snd (snd (handleStripeWebhook test_env test_db ''quote-0001'' ''good'')))
         (GenerateCertificate ''quote-0001'') = 1
   \<and> snd (handleStripeWebhook test_env paid_db ''quote-0001'' ''good'') = (paid_db, [])"
proof -
  have up: "\<not> prismaDown test_env" by (simp add: test_env_def)
  obtain r d' t where run:
    "handleStripeWebhook test_env test_db ''quote-0001'' ''good'' = (r, d', t)"
    by (cases "handleStripeWebhook test_env test_db ''quote-0001'' ''good''") auto
  have pay: "status quote1 \<noteq> ''paid''" "whatsappId alice = Some ''250788000001''"
    by (simp_all add: quote1_def alice_def)
  obtain r2 d2 t2 where run2:
    "handleStripeWebhook test_env paid_db ''quote-0001'' ''good'' = (r2, d2, t2)"
    by (cases "handleStripeWebhook test_env paid_db ''quote-0001'' ''good''") auto
  have q2: "findQuote paid_db ''quote-0001'' = Some (quote1\<lparr>status := ''paid''\<rparr>)"
    by (simp add: findQuote_def paid_db_def test_db_def quote1_def)
  have u2: "findUserById paid_db (userId (quote1\<lparr>status := ''paid''\<rparr>)) = Some alice"
    by (simp add: findUserById_def paid_db_def test_db_def quote1_def alice_def)
  have first: "findQuote d' ''quote-0001'' = Some (quote1\<lparr>status := ''paid''\<rparr>)
     \<and> count_list t (QuoteUpdateStatus ''quote-0001'' ''paid'') = 1
     \<and> count_list t (SendWhatsAppMessage ''250788000001'' (successMessage test_env quote1 alice)) = 1
     \<and> count_list t (GenerateCertificate ''quote-0001'') = 1"
    using paid_transition_guard [OF test_event_good _ _ _ up test_findQuote test_findUser run,
        where w = "''250788000001''"] pay
    by auto
  have second: "d2 = paid_db \<and> t2 = []"
    using paid_transition_guard [OF test_event_good _ _ _ up q2 u2 run2] by simp
  show ?thesis using first second by (simp add: run run2)
qed

text \<open>
  Claim C8 as stated fails: for the unknown product type travel the dispatch ends in an
  exception, not in an error result, and the turn ends with the retry message, without a
  tool result for the dialogue model and without persisting the history.
\<close>

theorem unknown_product_throws_counterexample:
  "fst (dispatchToolCall test_env test_db alice (payment_link_call ''travel''))
     = Inl ''Product type travel not found.''
   \<and> snd (processMessage test_env test_db ''250788000001'' ''travel'')
       = [ConversationCreate ''user-1'', ChatSendMessage ''travel'',
          UserUpdateFullName ''user-1'' ''Alice Uwase'',
          SendWhatsAppMessage ''250788000001'' sorryMessage]"
proof -
  have foc: "findOrCreateUserAndConversation test_env test_db ''250788000001''
     = (alice, test_conversation, test_db\<lparr>conversations := [test_conversation]\<rparr>,
        [ConversationCreate ''user-1''])"
    by (simp add: findOrCreateUserAndConversation_def findUserByWhatsappId_def
        findConversation_def test_db_def alice_def test_env_def test_conversation_def
        Let_def)
  have unknown: "findProduct test_db ''travel'' = None"
    by (simp add: findProduct_def test_db_def motorProductWith_def)
  have call: "fname (payment_link_call ''travel'') = ''generate_payment_link''"
    "insuranceType (args (payment_link_call ''travel'')) = ''travel''"
    "customerName (args (payment_link_call ''travel'')) = ''Alice Uwase''"
    by (simp_all add: payment_link_call_def)
  have up: "\<not> prismaDown test_env" by (simp add: test_env_def)
  have llm: "chatSendMessage test_env
       (injectDynamicInstructions (test_db\<lparr>conversations := [test_conversation]\<rparr>)
          (history test_conversation) ''travel'') ''travel''
     = Inr \<lparr>rtext = [], functionCalls = [payment_link_call ''travel'']\<rparr>"
    by (simp add: test_env_def)
  have "fst (dispatchToolCall test_env test_db alice (payment_link_call ''travel''))
          = Inl ''Product type travel not found.''"
    using dispatch_payment_link_unknown [OF call(1), of test_db test_env alice] unknown call
    by simp
  moreover have "snd (processMessage test_env test_db ''250788000001'' ''travel'')
       = [ConversationCreate ''user-1'', ChatSendMessage ''travel'',
          UserUpdateFullName ''user-1'' ''Alice Uwase'',
          SendWhatsAppMessage ''250788000001'' sorryMessage]"
    using processMessage_unknown_product [OF up foc llm _ call(1)] unknown call
    by (simp add: alice_def)
  ultimately show ?thesis by simp
qed


lemma test_findOrCreate:
  "findOrCreateUserAndConversation test_env test_db ''250788000001''
     = (alice, test_conversation, test_db\<lparr>conversations := [test_conversation]\<rparr>,
        [ConversationCreate ''user-1''])"
  by (simp add: findOrCreateUserAndConversation_def findUserByWhatsappId_def
      findConversation_def test_db_def alice_def test_env_def test_conversation_def
      Let_def)

lemma test_chat:
  "chatSendMessage test_env h m = Inr \<lparr>rtext = [], functionCalls = [payment_link_call m]\<rparr>"
  by (simp add: test_env_def)

lemma test_unknown_product:
  "t \<noteq> ''motor'' \<Longrightarrow> findProduct test_db t = None"
  by (simp add: findProduct_def test_db_def motorProductWith_def)

theorem unknown_product_aborts_turn_witness:
  "findProduct test_db ''health'' = None
   \<and> processMessage test_env test_db ''250788000001'' ''health''
       = (updateUserFullName (test_db\<lparr>conversations := [test_conversation]\<rparr>)
            ''user-1'' ''Alice Uwase'',
          [ConversationCreate ''user-1'', ChatSendMessage ''health'',
           UserUpdateFullName ''user-1'' ''Alice Uwase'',
           SendWhatsAppMessage ''250788000001'' sorryMessage])
   \<and> quotes (fst (processMessage test_env test_db ''250788000001'' ''health'')) = [quote1]"
proof -
  have up: "\<not> prismaDown test_env" by (simp add: test_env_def)
  have unknown: "findProduct test_db (insuranceType (args (payment_link_call ''health''))) = None"
    by (simp add: payment_link_call_def test_unknown_product)
  have name: "fname (payment_link_call ''health'') = ''generate_payment_link''"
    by (simp add: payment_link_call_def)
  have calls: "functionCalls \<lparr>rtext = [], functionCalls = [payment_link_call ''health'']\<rparr>
                 = payment_link_call ''health'' # []"
    by simp
  have facts: "uid alice = ''user-1''" "quotes test_db = [quote1]"
    "customerName (args (payment_link_call ''health'')) = ''Alice Uwase''"
    "insuranceType (args (payment_link_call ''health'')) = ''health''"
    by (simp_all add: alice_def test_db_def payment_link_call_def)
  show ?thesis
    using unknown_product_aborts_turn [OF up test_findOrCreate test_chat calls name unknown]
      unknown
    by (auto simp: facts)
qed

theorem display_name_updated_first_witness:
  "findProduct test_db ''travel'' = None
   \<and> findUserByWhatsappId (fst (processMessage test_env test_db ''250788000001'' ''travel''))
         ''250788000001'' = Some (alice\<lparr>fullName := Some ''Alice Uwase''\<rparr>)
   \<and> quotes (fst (processMessage test_env test_db ''250788000001'' ''travel'')) = [quote1]"
proof -
  have up: "\<not> prismaDown test_env" by (simp add: test_env_def)
  have unknown: "findProduct test_db ''travel'' = None"
    by (simp add: test_unknown_product)
  have name: "fname (payment_link_call ''travel'') = ''generate_payment_link''"
    by (simp add: payment_link_call_def)
  have calls: "functionCalls \<lparr>rtext = [], functionCalls = [payment_link_call ''travel'']\<rparr>
                 = payment_link_call ''travel'' # []"
    by simp
  obtain d' t where run: "processMessage test_env test_db ''250788000001'' ''travel'' = (d', t)"
    by (cases "processMessage test_env test_db ''250788000001'' ''travel''") auto
  have facts: "quotes test_db = [quote1]"
    "customerName (args (payment_link_call ''travel'')) = ''Alice Uwase''"
    "insuranceType (args (payment_link_call ''travel'')) = ''travel''"
    by (simp_all add: test_db_def payment_link_call_def)
  show ?thesis
    using display_name_updated_first [OF up test_findOrCreate test_chat calls name run] unknown
    by (auto simp: facts run)
qed

lemma pdf_outage_generate:
  "\<exists>err. fst (generateAndUploadCertificate pdf_outage_env d q) = Inl err"
  by (simp add: generateAndUploadCertificate_def pdf_outage_env_def Let_def
      split: option.splits)

theorem fulfillment_failure_contained_witness:
  "fst (handleStripeWebhook pdf_outage_env test_db ''quote-0001'' ''good'') = Inr ()
   \<and> last (snd (snd (handleStripeWebhook pdf_outage_env test_db ''quote-0001'' ''good'')))
       = SendWhatsAppMessage ''250788000001'' degradedMessage
   \<and> findQuote (fst (snd (handleStripeWebhook pdf_outage_env test_db ''quote-0001'' ''good'')))
         ''quote-0001'' = Some (quote1\<lparr>status := ''paid''\<rparr>)"
proof -
  have up: "\<not> prismaDown pdf_outage_env" by (simp add: pdf_outage_env_def test_env_def)
  have ev: "constructEvent pdf_outage_env ''quote-0001'' ''good''
     = Inr \<lparr>etype = ''checkout.session.completed'', metadata_quoteId = Some ''quote-0001''\<rparr>"
    by (simp add: pdf_outage_env_def test_env_def test_event_def)
  obtain r d' t where run:
    "handleStripeWebhook pdf_outage_env test_db ''quote-0001'' ''good'' = (r, d', t)"
    by (cases "handleStripeWebhook pdf_outage_env test_db ''quote-0001'' ''good''") auto
  have pay: "status quote1 \<noteq> ''paid''" "whatsappId alice = Some ''250788000001''"
    "''250788000001'' \<noteq> []"
    by (simp_all add: quote1_def alice_def)
  have fail: "(\<exists>err. fst (generateAndUploadCertificate pdf_outage_env d' ''quote-0001'') = Inl err)
     \<or> (\<exists>url err. fst (generateAndUploadCertificate pdf_outage_env d' ''quote-0001'') = Inr url
           \<and> whatsappPostDocument pdf_outage_env ''250788000001'' url = Some err)"
    using pdf_outage_generate by blast
  show ?thesis
    using fulfillment_failure_contained [OF ev _ _ _ up test_findQuote test_findUser pay run fail]
    by (simp add: run)
qed

end
